theory Spec2Isabelle
  imports Complex_Main "HOL-Library.Log_Nat"
begin

section \<open>Data model\<close>

text \<open>
  The script \<^verbatim>\<open>ProcessGEE.py\<close> builds requests for the Earth Engine service and keeps
  house on the local file system. The objects of the \<^verbatim>\<open>ee\<close> library are client-side
  expressions that the service evaluates later, so they are modelled as terms of
  datatypes whose constructors are the library calls of the source. The bounds of a
  shapefile are double-precision floating-point numbers; the thresholds that are only
  handed to the service are real numbers. Paths, dates and band names are strings.
\<close>

type_synonym path = string

subsection \<open>Double-precision numbers\<close>

text \<open>
  A value of numpy's \<^verbatim>\<open>float64\<close>: a finite number, given by the real it denotes, an
  infinity, or not-a-number.
\<close>

datatype float64 = Finite real | PInf | NInf | NaN

text \<open>Rounding to the nearest integer, a tie going to the even one.\<close>

definition round_half_even :: "real \<Rightarrow> int" where
  "round_half_even q =
     (let f = \<lfloor>q\<rfloor>; d = q - of_int f in
      if d < 1 / 2 then f else if 1 / 2 < d then f + 1 else if even f then f else f + 1)"

text \<open>The exponent \<open>e\<close> with \<open>2 powi e \<le> x < 2 powi (e + 1)\<close>, for a positive \<open>x\<close>.\<close>

definition binade :: "real \<Rightarrow> int" where
  "binade x = (if 1 \<le> x then bitlen \<lfloor>x\<rfloor> - 1 else - bitlen (\<lceil>1 / x\<rceil> - 1))"

text \<open>The magnitude from which a result overflows to an infinity.\<close>

definition float_overflow :: real where
  "float_overflow = 2 ^ 1024"

text \<open>
  The IEEE 754 rounding of a real to binary64, to nearest and ties to even: 53 significant
  bits, the spacing of the subnormal numbers below \<open>2 powi (- 1022)\<close>, an infinity from
  \<open>2 ^ 1024\<close> on.
\<close>

definition round64 :: "real \<Rightarrow> float64" where
  "round64 x =
     (if x = 0 then Finite 0
      else
        (let e = max (binade \<bar>x\<bar>) (- 1022);
             ulp = 2 powi (e - 52);
             r = of_int (round_half_even (x / ulp)) * ulp
         in if float_overflow \<le> \<bar>r\<bar> then (if 0 < x then PInf else NInf) else Finite r))"

text \<open>\<^verbatim>\<open>a - b\<close>, \<^verbatim>\<open>abs(a)\<close> and \<^verbatim>\<open>a > k\<close> for an integer \<open>k\<close>, on \<^verbatim>\<open>float64\<close> values.\<close>

fun float_sub :: "float64 \<Rightarrow> float64 \<Rightarrow> float64" where
  "float_sub NaN y = NaN"
| "float_sub x NaN = NaN"
| "float_sub (Finite a) (Finite b) = round64 (a - b)"
| "float_sub (Finite a) PInf = NInf"
| "float_sub (Finite a) NInf = PInf"
| "float_sub PInf (Finite b) = PInf"
| "float_sub NInf (Finite b) = NInf"
| "float_sub PInf PInf = NaN"
| "float_sub NInf NInf = NaN"
| "float_sub PInf NInf = PInf"
| "float_sub NInf PInf = NInf"

fun float_abs :: "float64 \<Rightarrow> float64" where
  "float_abs (Finite a) = Finite \<bar>a\<bar>"
| "float_abs PInf = PInf"
| "float_abs NInf = PInf"
| "float_abs NaN = NaN"

fun float_gt_int :: "float64 \<Rightarrow> int \<Rightarrow> bool" where
  "float_gt_int (Finite a) k = (of_int k < a)"
| "float_gt_int PInf k = True"
| "float_gt_int NInf k = False"
| "float_gt_int NaN k = False"

subsection \<open>Service objects, errors and events\<close>

text \<open>The array \<^verbatim>\<open>shp_gdf.total_bounds\<close>, in the order (xmin, ymin, xmax, ymax).\<close>

type_synonym bbox = "float64 \<times> float64 \<times> float64 \<times> float64"

text \<open>The string \<^verbatim>\<open>f'EPSG:{out_epsg}'\<close>, kept as the value it is formatted from.\<close>

datatype crs = EPSG "int option"

text \<open>\<^verbatim>\<open>geemap.shp_to_ee(path)\<close> and \<^verbatim>\<open>.geometry()\<close> of it.\<close>

datatype ee_obj = Shp_to_ee path | Geometry ee_obj

text \<open>The feature collection \<^verbatim>\<open>geemap.fishnet(data, rows=r, cols=c)\<close>.\<close>

datatype features = Fishnet_of ee_obj nat nat

datatype reducer = Reducer_mode | Reducer_mean | Reducer_median

datatype ee_filter = Filter_lte string int | Filter_equals string string

text \<open>The argument of \<^verbatim>\<open>select\<close>: a band name, a list of names, an index, a list of indices.\<close>

datatype selector = Band string | Bands "string list" | Band_index nat | Band_indices "nat list"

datatype image =
    Img_arg
  | Reduce image_collection reducer
  | Select image selector
  | Image_of_property image string
  | Image_of_list "image list"
  | Gt image real
  | Lt image real
  | Neq image real
  | Rename image string
  | AddBands image image
  | Multiply image image
  | Add image image
  | DirectionalDistanceTransform image ee_number real
  | Reproject image image real
  | Mask image
  | FocalMin image real
  | FocalMax image real
  | Not_img image
  | UpdateMask image image
and image_collection =
    ImageCollection string
  | FilterBounds image_collection ee_obj
  | FilterDate image_collection string string
  | Filter image_collection ee_filter
  | Merge image_collection image_collection
  | Select_col image_collection selector
  | Join_saveFirst string image_collection image_collection ee_filter
  | Map_col image_collection image
and ee_number =
    Number real
  | Number_of_property image string
  | Subtract ee_number ee_number

text \<open>
  \<open>Img_arg\<close> is the image a mapped function receives: \<^verbatim>\<open>img_col.map(f)\<close> calls \<open>f\<close>
  once on a placeholder and ships the resulting expression, \<open>Map_col img_col body\<close>.
  \<open>Reproject img src scale\<close> is \<^verbatim>\<open>img.reproject(crs=src.projection(), scale=scale)\<close>.
\<close>

datatype error =
    IndexError
  | NameError string
  | FileExistsError path
  | FileNotFoundError path
  | IsADirectoryError path
  | NotADirectoryError path
  | DirectoryNotEmpty path

text \<open>The private helper functions of the file (their names start with an underscore there).\<close>

datatype fn =
    F_get_dynworld_col
  | F_get_aoi
  | F_get_s2_sr_cld_col
  | F_add_cloud_bands
  | F_add_cloud_bands_to_collection
  | F_add_shadow_bands
  | F_add_cld_shdw_mask
  | F_add_cld_shdw_mask_to_collection
  | F_apply_cld_shdw_mask

text \<open>
  The steps of a run, in program order: the entry of a helper function, and every library
  call that reaches the service or the file system. The arguments are those of the source;
  \<^verbatim>\<open>num_threads\<close> and console output are left out.
\<close>

datatype event =
    Call fn
  | Authenticate
  | Initialize string
  | Load_shp path
  | Read_file path
  | GetInfo_index image_collection
  | Fishnet ee_obj nat nat
  | Download_ee_image_tiles image features path string crs real "string option"
  | Download_ee_image image path ee_obj crs real "string option"
  | Makedirs path
  | Glob path
  | MosaicRasters "path list" path string
  | Close_raster path
  | Remove path
  | Rmdir path

text \<open>
  The world a run starts in: the directories and files that exist, the total bounds of the
  shapefile stored at each path, and the names of the tiles the service cuts a feature
  collection into (\<^verbatim>\<open>geemap.download_ee_image_tiles\<close> writes one file per tile).
\<close>

record world =
  dirs :: "path list"
  files :: "path list"
  shp_bounds :: "path \<Rightarrow> bbox"
  tile_names :: "features \<Rightarrow> string list"

section \<open>Sequencing, errors and the event log\<close>

text \<open>
  A statement maps the world to its result (an exception or a value), the events it
  emitted and the new world. An exception ends the run and keeps the events so far.
\<close>

type_synonym 'a io = "world \<Rightarrow> (error + 'a) \<times> event list \<times> world"

definition io_return :: "'a \<Rightarrow> 'a io" where
  "io_return a = (\<lambda>w. (Inr a, [], w))"

definition io_raise :: "error \<Rightarrow> 'a io" where
  "io_raise e = (\<lambda>w. (Inl e, [], w))"

definition io_of :: "error + 'a \<Rightarrow> 'a io" where
  "io_of r = (\<lambda>w. (r, [], w))"

definition emit :: "event \<Rightarrow> unit io" where
  "emit e = (\<lambda>w. (Inr (), [e], w))"

definition io_bind :: "'a io \<Rightarrow> ('a \<Rightarrow> 'b io) \<Rightarrow> 'b io" where
  "io_bind m f = (\<lambda>w. case m w of
      (Inl e, ev, w') \<Rightarrow> (Inl e, ev, w')
    | (Inr a, ev, w') \<Rightarrow> (case f a w' of (r, ev', w'') \<Rightarrow> (r, ev @ ev', w'')))"

text \<open>\<^verbatim>\<open>for x in xs: body\<close>\<close>

fun io_for :: "'a list \<Rightarrow> ('a \<Rightarrow> unit io) \<Rightarrow> unit io" where
  "io_for [] body = io_return ()"
| "io_for (x # xs) body = io_bind (body x) (\<lambda>_. io_for xs body)"

definition result :: "(error + 'a) \<times> event list \<times> world \<Rightarrow> error + 'a" where
  "result r = fst r"

definition events :: "(error + 'a) \<times> event list \<times> world \<Rightarrow> event list" where
  "events r = fst (snd r)"

definition final :: "(error + 'a) \<times> event list \<times> world \<Rightarrow> world" where
  "final r = snd (snd r)"

text \<open>\<^verbatim>\<open>xs[i]\<close> for an index that is not negative.\<close>

definition py_index :: "'a list \<Rightarrow> nat \<Rightarrow> error + 'a" where
  "py_index xs i = (if i < length xs then Inr (xs ! i) else Inl IndexError)"

section \<open>The file system\<close>

text \<open>\<^verbatim>\<open>os.path.join(a, b)\<close> on a POSIX system.\<close>

definition os_path_join :: "path \<Rightarrow> path \<Rightarrow> path" where
  "os_path_join a b =
     (if b \<noteq> [] \<and> hd b = CHR ''/'' then b
      else if a = [] \<or> last a = CHR ''/'' then a @ b
      else a @ CHR ''/'' # b)"

definition os_path_exists :: "path \<Rightarrow> bool io" where
  "os_path_exists p = (\<lambda>w. (Inr (p \<in> set (files w) \<or> p \<in> set (dirs w)), [], w))"

text \<open>\<^verbatim>\<open>os.makedirs(p)\<close>; intermediate directories are not tracked.\<close>

definition os_makedirs :: "path \<Rightarrow> unit io" where
  "os_makedirs p = (\<lambda>w.
     if p \<in> set (files w) \<or> p \<in> set (dirs w) then (Inl (FileExistsError p), [Makedirs p], w)
     else (Inr (), [Makedirs p], w\<lparr>dirs := dirs w @ [p]\<rparr>))"

text \<open>\<^verbatim>\<open>os.makedirs(p, exist_ok=True)\<close>: an existing directory is accepted, a file is not.\<close>

definition os_makedirs_exist_ok :: "path \<Rightarrow> unit io" where
  "os_makedirs_exist_ok p = (\<lambda>w.
     if p \<in> set (dirs w) then (Inr (), [Makedirs p], w)
     else if p \<in> set (files w) then (Inl (FileExistsError p), [Makedirs p], w)
     else (Inr (), [Makedirs p], w\<lparr>dirs := dirs w @ [p]\<rparr>))"

definition os_remove :: "path \<Rightarrow> unit io" where
  "os_remove p = (\<lambda>w.
     if p \<in> set (files w) then (Inr (), [Remove p], w\<lparr>files := removeAll p (files w)\<rparr>)
     else if p \<in> set (dirs w) then (Inl (IsADirectoryError p), [Remove p], w)
     else (Inl (FileNotFoundError p), [Remove p], w))"

text \<open>A path lies below directory \<open>d\<close> when it extends \<open>d\<close> and a separator.\<close>

definition below :: "path \<Rightarrow> path \<Rightarrow> bool" where
  "below d p = (let pre = os_path_join d [] in
     length pre < length p \<and> take (length pre) p = pre)"

text \<open>\<^verbatim>\<open>os.rmdir(p)\<close> removes an empty directory only.\<close>

definition os_rmdir :: "path \<Rightarrow> unit io" where
  "os_rmdir p = (\<lambda>w.
     if p \<in> set (dirs w) then
       (if list_ex (below p) (files w @ dirs w) then (Inl (DirectoryNotEmpty p), [Rmdir p], w)
        else (Inr (), [Rmdir p], w\<lparr>dirs := removeAll p (dirs w)\<rparr>))
     else if p \<in> set (files w) then (Inl (NotADirectoryError p), [Rmdir p], w)
     else (Inl (FileNotFoundError p), [Rmdir p], w))"

text \<open>
  \<^verbatim>\<open>fnmatch\<close> of a name against a pattern in which only \<^verbatim>\<open>*\<close> is special (the patterns of
  the source hold no other wildcard of their own; a band or folder name holding
  \<^verbatim>\<open>?\<close> or \<^verbatim>\<open>[\<close> is read literally here).
\<close>

fun fnmatch :: "string \<Rightarrow> string \<Rightarrow> bool" where
  "fnmatch [] s = (s = [])"
| "fnmatch (c # p) s =
     (if c = CHR ''*''
      then (fnmatch p s \<or> (case s of [] \<Rightarrow> False | x # s' \<Rightarrow> fnmatch (c # p) s'))
      else (case s of [] \<Rightarrow> False | x # s' \<Rightarrow> x = c \<and> fnmatch p s'))"

text \<open>The last component of a pattern, and what stands before it (separator included).\<close>

definition basename :: "path \<Rightarrow> string" where
  "basename p = rev (takeWhile (\<lambda>c. c \<noteq> CHR ''/'') (rev p))"

definition dirpart :: "path \<Rightarrow> string" where
  "dirpart p = take (length p - length (basename p)) p"

text \<open>
  One entry against \<^verbatim>\<open>glob.glob(pattern)\<close>, for a pattern whose directory part is literal:
  the entry lies directly in that directory, its name matches the last component, and a
  name that starts with a dot is matched only by a pattern that starts with a dot.
\<close>

definition glob_match :: "path \<Rightarrow> path \<Rightarrow> bool" where
  "glob_match pattern p =
     (let d = dirpart pattern; b = basename pattern; name = drop (length d) p in
      take (length d) p = d \<and> name \<noteq> [] \<and> CHR ''/'' \<notin> set name \<and> fnmatch b name \<and>
      (if hd name = CHR ''.'' then b \<noteq> [] \<and> hd b = CHR ''.'' else True))"

definition glob_glob :: "path \<Rightarrow> path list io" where
  "glob_glob pattern = (\<lambda>w.
     (Inr (filter (glob_match pattern) (files w @ dirs w)), [Glob pattern], w))"

definition add_file :: "path \<Rightarrow> world \<Rightarrow> world" where
  "add_file p w = (if p \<in> set (files w) then w else w\<lparr>files := files w @ [p]\<rparr>)"

section \<open>Library calls\<close>

definition ee_Authenticate :: "unit io" where
  "ee_Authenticate = emit Authenticate"

definition ee_Initialize :: "string \<Rightarrow> unit io" where
  "ee_Initialize project = emit (Initialize project)"

definition geemap_shp_to_ee :: "path \<Rightarrow> ee_obj io" where
  "geemap_shp_to_ee p = (\<lambda>w. (Inr (Shp_to_ee p), [Load_shp p], w))"

text \<open>\<^verbatim>\<open>gpd.read_file(p).total_bounds\<close>\<close>

definition gpd_total_bounds :: "path \<Rightarrow> bbox io" where
  "gpd_total_bounds p = (\<lambda>w. (Inr (shp_bounds w p), [Read_file p], w))"

text \<open>\<^verbatim>\<open>col.aggregate_array('system:index').getInfo()\<close>, whose value is only printed.\<close>

definition getInfo_index :: "image_collection \<Rightarrow> unit io" where
  "getInfo_index col = emit (GetInfo_index col)"

definition geemap_fishnet :: "ee_obj \<Rightarrow> nat \<Rightarrow> nat \<Rightarrow> features io" where
  "geemap_fishnet shp rows cols = (\<lambda>w. (Inr (Fishnet_of shp rows cols), [Fishnet shp rows cols], w))"

text \<open>One file \<^verbatim>\<open>out_dir/<prefix><tile>.tif\<close> per tile of the feature collection.\<close>

definition geemap_download_ee_image_tiles ::
  "image \<Rightarrow> features \<Rightarrow> path \<Rightarrow> string \<Rightarrow> crs \<Rightarrow> real \<Rightarrow> string option \<Rightarrow> unit io" where
  "geemap_download_ee_image_tiles img feats out_dir prefix dst_crs scale dtype = (\<lambda>w.
     (Inr (), [Download_ee_image_tiles img feats out_dir prefix dst_crs scale dtype],
      foldl (\<lambda>w' n. add_file (os_path_join out_dir (prefix @ n @ ''.tif'')) w') w (tile_names w feats)))"

definition geemap_download_ee_image ::
  "image \<Rightarrow> path \<Rightarrow> ee_obj \<Rightarrow> crs \<Rightarrow> real \<Rightarrow> string option \<Rightarrow> unit io" where
  "geemap_download_ee_image img filename region dst_crs scale dtype = (\<lambda>w.
     (Inr (), [Download_ee_image img filename region dst_crs scale dtype], add_file filename w))"

text \<open>
  Modelled from the spec: \<^verbatim>\<open>pr.mosaicRasters\<close> of the module \<^verbatim>\<open>ProcessRasters\<close>, which is not
  among the sources. The spec calls it the helper that stitches downloaded tiles back into
  a single raster: it writes \<open>out_file\<close> and returns the open raster, named by its path.
\<close>

definition pr_mosaicRasters :: "path list \<Rightarrow> path \<Rightarrow> string \<Rightarrow> path io" where
  "pr_mosaicRasters mosaic_list out_file extent_mode = (\<lambda>w.
     (Inr out_file, [MosaicRasters mosaic_list out_file extent_mode], add_file out_file w))"

definition raster_close :: "path \<Rightarrow> unit io" where
  "raster_close ras = emit (Close_raster ras)"

section \<open>Land cover: the helper functions\<close>

text \<open>
  \<^verbatim>\<open>_get_dynworld_col\<close> (lines 20 to 39). The loop \<^verbatim>\<open>for i in range(1, len(start_date))\<close>
  runs over the indices it is given; an index outside a list raises \<open>IndexError\<close>.
\<close>

fun dynworld_col_loop ::
  "ee_obj \<Rightarrow> string list \<Rightarrow> string list \<Rightarrow> nat list \<Rightarrow> image_collection \<Rightarrow>
   error + image_collection" where
  "dynworld_col_loop aoi start_date end_date [] landcover_col = Inr landcover_col"
| "dynworld_col_loop aoi start_date end_date (i # is) landcover_col =
     (case py_index start_date i of
        Inl e \<Rightarrow> Inl e
      | Inr s \<Rightarrow>
         (case py_index end_date i of
            Inl e \<Rightarrow> Inl e
          | Inr e \<Rightarrow>
             (let landcover_col1 =
                    FilterDate (FilterBounds (ImageCollection ''GOOGLE/DYNAMICWORLD/V1'') aoi) s e
              in dynworld_col_loop aoi start_date end_date is (Merge landcover_col landcover_col1))))"

definition get_dynworld_col ::
  "ee_obj \<Rightarrow> string list \<Rightarrow> string list \<Rightarrow> image_collection io" where
  "get_dynworld_col aoi start_date end_date =
     io_bind (emit (Call F_get_dynworld_col)) (\<lambda>_.
     io_of
       (case py_index start_date 0 of
          Inl e \<Rightarrow> Inl e
        | Inr s \<Rightarrow>
           (case py_index end_date 0 of
              Inl e \<Rightarrow> Inl e
            | Inr e \<Rightarrow>
               (let landcover_col =
                      FilterDate (FilterBounds (ImageCollection ''GOOGLE/DYNAMICWORLD/V1'') aoi) s e
                in dynworld_col_loop aoi start_date end_date [1 ..< length start_date]
                     landcover_col))))"

text \<open>\<^verbatim>\<open>_get_aoi\<close> (lines 42 to 54) returns the bounding box, the shape and its geometry.\<close>

definition get_aoi :: "path \<Rightarrow> (bbox \<times> ee_obj \<times> ee_obj) io" where
  "get_aoi shp_path =
     io_bind (emit (Call F_get_aoi)) (\<lambda>_.
     io_bind (geemap_shp_to_ee shp_path) (\<lambda>ee_shp.
     let ee_geometry = Geometry ee_shp in
     io_bind (gpd_total_bounds shp_path) (\<lambda>bbox.
     io_return (bbox, ee_shp, ee_geometry))))"

section \<open>Land cover: \<^verbatim>\<open>get_dynworld_landcover\<close>\<close>

definition dw_default_bands :: "string list" where
  "dw_default_bands =
     [''water'', ''trees'', ''grass'', ''flooded_vegetation'', ''crops'', ''shrub_and_scrub'',
      ''built'', ''bare'', ''snow_and_ice'']"

text \<open>
  Lines 99 to 105: the bounds (xmin, ymin, xmax, ymax) are unpacked into variables named
  \<^verbatim>\<open>ymin, xmin, ymax, xmax\<close>; the flag starts as \<open>False\<close> and is set by the test, which
  subtracts, takes the absolute value and compares in \<^verbatim>\<open>float64\<close>.
\<close>

definition dw_large_aoi :: "bbox \<Rightarrow> bool" where
  "dw_large_aoi bbox =
     (case bbox of (ymin, xmin, ymax, xmax) \<Rightarrow>
        (let large_aoi = False in
         if float_gt_int (float_abs (float_sub ymax ymin)) 1 \<or>
            float_gt_int (float_abs (float_sub xmax xmin)) 1
         then True else large_aoi))"

text \<open>Lines 120 to 147: the tiled download of the land-cover class, the mosaic, the cleanup.\<close>

definition dw_landcover_large :: "image \<Rightarrow> ee_obj \<Rightarrow> path \<Rightarrow> crs \<Rightarrow> real \<Rightarrow> unit io" where
  "dw_landcover_large dw_composite ee_shp out_folder dst_crs out_res =
     (let tile_dir = os_path_join out_folder ''temp_tiles'' in
      io_bind (os_path_exists tile_dir) (\<lambda>ex.
      io_bind (if \<not> ex then os_makedirs tile_dir else io_return ()) (\<lambda>_.
      io_bind (geemap_fishnet ee_shp 2 2) (\<lambda>tile_features.
      io_bind (geemap_download_ee_image_tiles dw_composite tile_features tile_dir ''landcover_''
                 dst_crs out_res (Some ''int8'')) (\<lambda>_.
      io_bind (glob_glob (os_path_join tile_dir ''*.tif'')) (\<lambda>mosaic_list.
      let mosaic_out = os_path_join out_folder ''landcover.tif'' in
      io_bind (pr_mosaicRasters mosaic_list mosaic_out ''trim'') (\<lambda>mosaic_ras.
      io_bind (raster_close mosaic_ras) (\<lambda>_.
      io_bind (io_for mosaic_list os_remove) (\<lambda>_.
      os_rmdir tile_dir)))))))))"

text \<open>Lines 150 to 157: the download of the land-cover class as one raster.\<close>

definition dw_landcover_small :: "image \<Rightarrow> ee_obj \<Rightarrow> path \<Rightarrow> crs \<Rightarrow> real \<Rightarrow> unit io" where
  "dw_landcover_small dw_composite ee_geometry out_folder dst_crs out_res =
     geemap_download_ee_image dw_composite (os_path_join out_folder ''landcover.tif'')
       ee_geometry dst_crs out_res (Some ''int8'')"

text \<open>The bodies of the loops of lines 176 to 182 and of lines 186 to 191.\<close>

definition dw_prob_band_large ::
  "image \<Rightarrow> features \<Rightarrow> path \<Rightarrow> crs \<Rightarrow> real \<Rightarrow> string \<Rightarrow> unit io" where
  "dw_prob_band_large probs_multiband tile_features out_dir dst_crs out_res band =
     geemap_download_ee_image_tiles (Select probs_multiband (Band band)) tile_features
       out_dir (''landcover_'' @ band @ ''_'') dst_crs out_res None"

definition dw_prob_band_small ::
  "image \<Rightarrow> path \<Rightarrow> ee_obj \<Rightarrow> crs \<Rightarrow> real \<Rightarrow> string \<Rightarrow> unit io" where
  "dw_prob_band_small probs_multiband out_dir ee_geometry dst_crs out_res band =
     geemap_download_ee_image (Select probs_multiband (Band band))
       (os_path_join out_dir (''landcover_prob_'' @ band @ ''.tif''))
       ee_geometry dst_crs out_res None"

text \<open>Lines 160 to 191: the body of \<^verbatim>\<open>if prob_type is not None\<close>.\<close>

definition dw_probability ::
  "string \<Rightarrow> image_collection \<Rightarrow> string list \<Rightarrow> bool \<Rightarrow> ee_obj \<Rightarrow> ee_obj \<Rightarrow> path \<Rightarrow> crs \<Rightarrow>
   real \<Rightarrow> unit io" where
  "dw_probability prob_type landcover_col bands large_aoi ee_shp ee_geometry out_folder dst_crs
     out_res =
     (let out_dir = os_path_join out_folder ''probability'' in
      io_bind (os_path_exists out_dir) (\<lambda>ex.
      io_bind (if \<not> ex then os_makedirs_exist_ok out_dir else io_return ()) (\<lambda>_.
      let probs = Select_col landcover_col (Bands bands);
          probability =
            (if prob_type = ''mean'' then Reduce probs Reducer_mean
             else Reduce probs Reducer_median);
          probs_multiband = Select probability (Bands bands)
      in
      if large_aoi then
        io_bind (geemap_fishnet ee_shp 2 2) (\<lambda>tile_features.
        io_for bands (dw_prob_band_large probs_multiband tile_features out_dir dst_crs out_res))
      else
        io_for bands (dw_prob_band_small probs_multiband out_dir ee_geometry dst_crs out_res))))"

text \<open>Lines 57 to 193.\<close>

definition get_dynworld_landcover ::
  "string \<Rightarrow> path \<Rightarrow> string list \<Rightarrow> string list \<Rightarrow> path \<Rightarrow> string list option \<Rightarrow> int option \<Rightarrow>
   real \<Rightarrow> string option \<Rightarrow> unit io" where
  "get_dynworld_landcover ee_project_id aoi_shp_path start_date end_date out_folder bands
     out_epsg out_res prob_type =
     io_bind ee_Authenticate (\<lambda>_.
     io_bind (ee_Initialize ee_project_id) (\<lambda>_.
     let dst_crs = EPSG out_epsg;
         bands = (case bands of None \<Rightarrow> dw_default_bands | Some bs \<Rightarrow> bs)
     in
     io_bind (get_aoi aoi_shp_path) (\<lambda>(bbox, ee_shp, ee_geometry).
     let ee_shp = ee_geometry;
         large_aoi = dw_large_aoi bbox
     in
     io_bind (get_dynworld_col ee_geometry start_date end_date) (\<lambda>landcover_col.
     io_bind (getInfo_index landcover_col) (\<lambda>_.
     let classification = Select_col landcover_col (Band ''label'');
         dw_composite = Reduce classification Reducer_mode
     in
     io_bind (if large_aoi
              then dw_landcover_large dw_composite ee_shp out_folder dst_crs out_res
              else dw_landcover_small dw_composite ee_geometry out_folder dst_crs out_res) (\<lambda>_.
     (case prob_type of
        None \<Rightarrow> io_return ()
      | Some pt \<Rightarrow>
          dw_probability pt landcover_col bands large_aoi ee_shp ee_geometry out_folder
            dst_crs out_res)))))))"

section \<open>Sentinel-2: the helper functions\<close>



text \<open>\<^verbatim>\<open>_add_cloud_bands\<close> (lines 236 to 246).\<close>

definition add_cloud_bands :: "image \<Rightarrow> int \<Rightarrow> image io" where
  "add_cloud_bands img cloud_prob_thres =
     io_bind (emit (Call F_add_cloud_bands)) (\<lambda>_.
     let cld_prb = Select (Image_of_property img ''s2cloudless'') (Band ''probability'');
         is_cloud = Rename (Gt cld_prb (of_int cloud_prob_thres)) ''clouds''
     in io_return (AddBands (AddBands img cld_prb) is_cloud))"

text \<open>\<^verbatim>\<open>_add_cloud_bands_to_collection\<close> (lines 249 to 251).\<close>

definition add_cloud_bands_to_collection :: "image_collection \<Rightarrow> int \<Rightarrow> image_collection io" where
  "add_cloud_bands_to_collection img_col cloud_prob_thres =
     io_bind (emit (Call F_add_cloud_bands_to_collection)) (\<lambda>_.
     io_bind (add_cloud_bands Img_arg cloud_prob_thres) (\<lambda>body.
     io_return (Map_col img_col body)))"

text \<open>\<^verbatim>\<open>_add_shadow_bands\<close> (lines 254 to 276).\<close>

definition add_shadow_bands :: "image \<Rightarrow> real \<Rightarrow> int \<Rightarrow> image io" where
  "add_shadow_bands img nir_dark_thresh cloud_proj_dist =
     io_bind (emit (Call F_add_shadow_bands)) (\<lambda>_.
     let not_water = Neq (Select img (Band ''SCL'')) 6;
         SR_BAND_SCALE = 10000;
         dark_pixels =
           Rename (Multiply (Lt (Select img (Band ''B8'')) (nir_dark_thresh * SR_BAND_SCALE))
                     not_water) ''dark_pixels'';
         shadow_azimuth =
           Subtract (Number 90) (Number_of_property img ''MEAN_SOLAR_AZIMUTH_ANGLE'');
         cld_proj =
           Rename
             (Mask
               (Select
                 (Reproject
                   (DirectionalDistanceTransform (Select img (Band ''clouds'')) shadow_azimuth
                      (of_int (cloud_proj_dist * 10)))
                   (Select img (Band_index 0)) 100)
                 (Band ''distance'')))
             ''cloud_transform'';
         shadows = Rename (Multiply cld_proj dark_pixels) ''shadows''
     in io_return (AddBands img (Image_of_list [dark_pixels, cld_proj, shadows])))"

text \<open>\<^verbatim>\<open>_add_cld_shdw_mask\<close> (lines 279 to 296).\<close>

definition add_cld_shdw_mask :: "image \<Rightarrow> int \<Rightarrow> int \<Rightarrow> real \<Rightarrow> int \<Rightarrow> image io" where
  "add_cld_shdw_mask img buffer cloud_prob_thresh nir_dark_thresh cloud_proj_dist =
     io_bind (emit (Call F_add_cld_shdw_mask)) (\<lambda>_.
     io_bind (add_cloud_bands img cloud_prob_thresh) (\<lambda>img_cloud.
     io_bind (add_shadow_bands img_cloud nir_dark_thresh cloud_proj_dist) (\<lambda>img_cloud_shadow.
     let is_cld_shdw =
           Gt (Add (Select img_cloud_shadow (Band ''clouds''))
                   (Select img_cloud_shadow (Band ''shadows''))) 0;
         is_cld_shdw =
           Rename
             (Reproject (FocalMax (FocalMin is_cld_shdw 2) (of_int (buffer * 2) / 20))
                (Select img (Band_indices [0])) 20)
             ''cloudmask''
     in io_return (AddBands img_cloud_shadow is_cld_shdw))))"

text \<open>\<^verbatim>\<open>_add_cld_shdw_mask_to_collection\<close> (lines 299 to 301).\<close>

definition add_cld_shdw_mask_to_collection ::
  "image_collection \<Rightarrow> int \<Rightarrow> int \<Rightarrow> real \<Rightarrow> int \<Rightarrow> image_collection io" where
  "add_cld_shdw_mask_to_collection img_col buffer cloud_prob_thresh nir_dark_thresh
     cloud_proj_dist =
     io_bind (emit (Call F_add_cld_shdw_mask_to_collection)) (\<lambda>_.
     io_bind (add_cld_shdw_mask Img_arg buffer cloud_prob_thresh nir_dark_thresh cloud_proj_dist)
       (\<lambda>body.
     io_return (Map_col img_col body)))"

text \<open>\<^verbatim>\<open>_apply_cld_shdw_mask\<close> (lines 304 to 311).\<close>

definition apply_cld_shdw_mask :: "image \<Rightarrow> image io" where
  "apply_cld_shdw_mask img =
     io_bind (emit (Call F_apply_cld_shdw_mask)) (\<lambda>_.
     let not_cld_shdw = Not_img (Select img (Band ''cloudmask''))
     in io_return (UpdateMask (Select img (Band ''B.*'')) not_cld_shdw))"

section \<open>Sentinel-2: \<^verbatim>\<open>get_sentinel2\<close>\<close>

definition s2_default_bands :: "string list" where
  "s2_default_bands = [''B2'', ''B3'', ''B4'', ''B8'', ''B12'']"

text \<open>Lines 340 and 341: the same unpacking, the flag assigned in one expression.\<close>

definition s2_large_aoi :: "bbox \<Rightarrow> bool" where
  "s2_large_aoi bbox =
     (case bbox of (ymin, xmin, ymax, xmax) \<Rightarrow>
        float_gt_int (float_abs (float_sub ymax ymin)) 1 \<or>
        float_gt_int (float_abs (float_sub xmax xmin)) 1)"

text \<open>
  Lines 370 to 397, the branch of a large AOI; \<open>s2_mosaic_band\<close> is the body of the loop
  of lines 390 to 397. The download of the tiles (lines 374 to 386) and the cleanup (lines
  400 to 404) are comments in the source, so they are no part of the function.
\<close>

definition s2_mosaic_band :: "path \<Rightarrow> path \<Rightarrow> string \<Rightarrow> unit io" where
  "s2_mosaic_band tile_dir out_folder band =
     io_bind (glob_glob (os_path_join tile_dir (''sentinel2_'' @ band @ ''_*.tif'')))
       (\<lambda>mosaic_list.
     let mosaic_out = os_path_join out_folder (''sentinel2_'' @ band @ ''.tif'') in
     io_bind (pr_mosaicRasters mosaic_list mosaic_out ''trim'') (\<lambda>mosaic_ras.
     raster_close mosaic_ras))"

definition s2_large :: "string list \<Rightarrow> ee_obj \<Rightarrow> path \<Rightarrow> unit io" where
  "s2_large bands ee_shp out_folder =
     (let tile_dir = os_path_join out_folder ''temp_tiles'' in
      io_bind (os_makedirs_exist_ok tile_dir) (\<lambda>_.
      io_bind (geemap_fishnet ee_shp 2 2) (\<lambda>tile_features.
      io_for bands (s2_mosaic_band tile_dir out_folder))))"

text \<open>
  Lines 407 to 418, the branch of a small AOI. The first statement of the loop body that
  reads a variable reads \<^verbatim>\<open>available_bands\<close>, which no statement of the function or of the
  module assigns (the assignment at line 366 is a comment): Python raises \<open>NameError\<close>
  there, and the rest of the body is never reached.
\<close>

definition s2_small :: "string list \<Rightarrow> unit io" where
  "s2_small bands =
     io_for bands (\<lambda>band.
       let band_median = band @ ''_median'' in
       io_raise (NameError ''available_bands''))"

text \<open>Lines 314 to 418.\<close>

definition get_sentinel2 ::
  "string \<Rightarrow> path \<Rightarrow> string list \<Rightarrow> string list \<Rightarrow> path \<Rightarrow> string list option \<Rightarrow> int option \<Rightarrow>
   real \<Rightarrow> int \<Rightarrow> int \<Rightarrow> real \<Rightarrow> int \<Rightarrow> int \<Rightarrow> unit io" where
  "get_sentinel2 ee_project_id aoi_shp_path start_date end_date out_folder bands out_epsg
     out_res cloud_filter cloud_prob_thresh nir_dark_thresh cloud_proj_dist buffer =
     io_bind ee_Authenticate (\<lambda>_.
     io_bind (ee_Initialize ee_project_id) (\<lambda>_.
     let dst_crs = EPSG out_epsg;
         bands = (case bands of None \<Rightarrow> s2_default_bands | Some bs \<Rightarrow> bs)
     in
     io_bind (get_aoi aoi_shp_path) (\<lambda>(bbox, ee_shp, ee_geometry).
     let large_aoi = s2_large_aoi bbox in
     if large_aoi then s2_large bands ee_shp out_folder
     else s2_small bands)))"

section \<open>Observations on a run\<close>

text \<open>
  The test of lines 104 and 341 as a reader of the documentation would write it, with the
  bounds unpacked under their true names.
\<close>

definition large_aoi_labelled :: "bbox \<Rightarrow> bool" where
  "large_aoi_labelled bbox =
     (case bbox of (xmin, ymin, xmax, ymax) \<Rightarrow>
        float_gt_int (float_abs (float_sub ymax ymin)) 1 \<or>
        float_gt_int (float_abs (float_sub xmax xmin)) 1)"

text \<open>
  A step that only the tiled strategy takes: creating the tile directory, cutting the AOI
  into tiles, downloading tiles. A step that only the single-shot strategy takes:
  downloading one image.
\<close>

definition tile_step :: "path \<Rightarrow> event \<Rightarrow> bool" where
  "tile_step out_folder e =
     (case e of
        Makedirs p \<Rightarrow> p = os_path_join out_folder ''temp_tiles''
      | Fishnet shp rows cols \<Rightarrow> True
      | Download_ee_image_tiles img feats out_dir prefix c scale dtype \<Rightarrow> True
      | _ \<Rightarrow> False)"

definition uses_tiles :: "path \<Rightarrow> event list \<Rightarrow> bool" where
  "uses_tiles out_folder ev = list_ex (tile_step out_folder) ev"

definition single_shot_step :: "event \<Rightarrow> bool" where
  "single_shot_step e =
     (case e of Download_ee_image img filename region c scale dtype \<Rightarrow> True | _ \<Rightarrow> False)"

definition uses_single_shot :: "event list \<Rightarrow> bool" where
  "uses_single_shot ev = list_ex single_shot_step ev"



definition is_download :: "event \<Rightarrow> bool" where
  "is_download e =
     (case e of
        Download_ee_image img filename region c scale dtype \<Rightarrow> True
      | Download_ee_image_tiles img feats out_dir prefix c scale dtype \<Rightarrow> True
      | _ \<Rightarrow> False)"

text \<open>The output files of the mosaic calls of a run, in order.\<close>

definition mosaic_out_of :: "event \<Rightarrow> path option" where
  "mosaic_out_of e = (case e of MosaicRasters l out m \<Rightarrow> Some out | _ \<Rightarrow> None)"

definition mosaic_outputs :: "event list \<Rightarrow> path list" where
  "mosaic_outputs ev = List.map_filter mosaic_out_of ev"



text \<open>The Dynamic World collection filtered to the AOI and to one date window.\<close>

definition dynworld_window :: "ee_obj \<Rightarrow> string \<Rightarrow> string \<Rightarrow> image_collection" where
  "dynworld_window aoi s e =
     FilterDate (FilterBounds (ImageCollection ''GOOGLE/DYNAMICWORLD/V1'') aoi) s e"

text \<open>
  The steps of the Sentinel-2 processing pipeline: the entry of one of its helper
  functions, a request that evaluates a collection, and a download of an image.
\<close>

definition pipeline_step :: "event \<Rightarrow> bool" where
  "pipeline_step e =
     (case e of
        Call f \<Rightarrow> f \<in> set [F_get_s2_sr_cld_col, F_add_cloud_bands,
                   F_add_cloud_bands_to_collection, F_add_shadow_bands, F_add_cld_shdw_mask,
                   F_add_cld_shdw_mask_to_collection, F_apply_cld_shdw_mask, F_get_dynworld_col]
      | GetInfo_index col \<Rightarrow> True
      | Download_ee_image img filename region c scale dtype \<Rightarrow> True
      | Download_ee_image_tiles img feats out_dir prefix c scale dtype \<Rightarrow> True
      | _ \<Rightarrow> False)"

text \<open>
  The steps that remain: signing in, loading the AOI, asking for the tile grid (request
  construction), and handling local files.
\<close>

definition request_or_file_step :: "event \<Rightarrow> bool" where
  "request_or_file_step e =
     (case e of
        Authenticate \<Rightarrow> True
      | Initialize p \<Rightarrow> True
      | Call f \<Rightarrow> f = F_get_aoi
      | Load_shp p \<Rightarrow> True
      | Read_file p \<Rightarrow> True
      | Fishnet shp rows cols \<Rightarrow> True
      | Makedirs p \<Rightarrow> True
      | Glob p \<Rightarrow> True
      | MosaicRasters l out m \<Rightarrow> True
      | Close_raster p \<Rightarrow> True
      | _ \<Rightarrow> False)"

text \<open>
  The reducer of a probability download: the image requested is one band selected from
  the selected bands of a reduced collection.
\<close>

definition reducer_of_image :: "image \<Rightarrow> reducer option" where
  "reducer_of_image img =
     (case img of
        Select i b \<Rightarrow>
          (case i of
             Select j bs \<Rightarrow> (case j of Reduce col r \<Rightarrow> Some r | _ \<Rightarrow> None)
           | _ \<Rightarrow> None)
      | _ \<Rightarrow> None)"

definition prob_reducer_of :: "event \<Rightarrow> reducer option" where
  "prob_reducer_of e =
     (case e of
        Download_ee_image img filename region c scale dtype \<Rightarrow> reducer_of_image img
      | Download_ee_image_tiles img feats out_dir prefix c scale dtype \<Rightarrow> reducer_of_image img
      | _ \<Rightarrow> None)"

definition prob_reducers :: "event list \<Rightarrow> reducer list" where
  "prob_reducers ev = List.map_filter prob_reducer_of ev"

section \<open>Example worlds\<close>

text \<open>
  A project folder \<open>out\<close> and a shapefile whose bounds span 2 degrees in X and half a
  degree in Y; the service cuts it into four tiles.
\<close>

definition aoi_large_world :: world where
  "aoi_large_world =
     \<lparr>dirs = [''out''], files = [], shp_bounds = (\<lambda>p. (Finite 0, Finite 0, Finite 2, Finite (1 / 2))),
      tile_names = (\<lambda>f. [''1'', ''2'', ''3'', ''4''])\<rparr>"

text \<open>The same folder and a shapefile whose bounds span half a degree in both directions.\<close>

definition aoi_small_world :: world where
  "aoi_small_world =
     \<lparr>dirs = [''out''], files = [], shp_bounds = (\<lambda>p. (Finite 0, Finite 0, Finite (1 / 2), Finite (1 / 2))),
      tile_names = (\<lambda>f. [''1''])\<rparr>"



text \<open>A large AOI and a folder that holds the tiles of band B2 from an earlier download.\<close>

definition tiles_present_world :: world where
  "tiles_present_world =
     \<lparr>dirs = [''out'', ''out/temp_tiles''],
      files = [''out/temp_tiles/sentinel2_B2_1.tif'', ''out/temp_tiles/sentinel2_B2_2.tif''],
      shp_bounds = (\<lambda>p. (Finite 0, Finite 0, Finite 2, Finite (1 / 2))),
      tile_names = (\<lambda>f. [''1'', ''2''])\<rparr>"

section \<open>Double-precision arithmetic\<close>

lemma float_overflow_code [code]:
  "float_overflow = 179769313486231590772930519078902473361797697894230657273430081157732675805500963132708477322407536021120113879871393357658789768814416622492847430639474124377767893424865485276302219601246094119453082952085005768838150682342462881473913110540827237163350510684586298239947245938479716304835356329624224137216"
  by (simp add: float_overflow_def)

lemma rhe_le: "q \<le> of_int m \<Longrightarrow> round_half_even q \<le> m"
  unfolding round_half_even_def Let_def
  by (auto simp: floor_le_iff le_floor_iff)

lemma rhe_ge:
  assumes "of_int m \<le> q"
  shows "m \<le> round_half_even q"
proof -
  from assms have "m \<le> \<lfloor>q\<rfloor>" by (simp add: le_floor_iff)
  then show ?thesis unfolding round_half_even_def Let_def by auto
qed

lemma rhe_gt_even:
  assumes "even m"
  shows "m < round_half_even q \<longleftrightarrow> of_int m + 1 / 2 < q"
proof -
  define f where "f = \<lfloor>q\<rfloor>"
  have lo: "of_int f \<le> q" and hi: "q < of_int f + 1"
    unfolding f_def by linarith+
  have r: "round_half_even q =
      (if q - of_int f < 1 / 2 then f else if 1 / 2 < q - of_int f then f + 1
       else if even f then f else f + 1)"
    by (simp add: round_half_even_def f_def Let_def)
  consider "f < m" | "f = m" | "m < f" by linarith
  then show ?thesis
  proof cases
    case 1
    then have a: "of_int f + 1 \<le> (of_int m :: real)" by linarith
    from 1 have "round_half_even q \<le> m" unfolding r by auto
    with a hi show ?thesis by auto
  next
    case 2
    with assms lo hi show ?thesis unfolding r by auto
  next
    case 3
    then have a: "of_int m + 1 \<le> (of_int f :: real)" by linarith
    from 3 have "m < round_half_even q" unfolding r by auto
    with a lo show ?thesis by auto
  qed
qed

lemma rhe_neg: "round_half_even (- q) = - round_half_even q"
proof (cases "q = of_int \<lfloor>q\<rfloor>")
  case True
  then obtain k where k: "q = of_int k" ..
  show ?thesis unfolding k round_half_even_def Let_def
    by (simp flip: of_int_minus)
next
  case False
  then have c: "\<lceil>q\<rceil> = \<lfloor>q\<rfloor> + 1"
    by (metis ceiling_altdef)
  have fl: "\<lfloor>- q\<rfloor> = - \<lfloor>q\<rfloor> - 1"
    using c by (simp add: floor_minus)
  show ?thesis
    unfolding round_half_even_def Let_def fl
    by (auto simp: field_simps)
qed

lemma binade_one: "1 \<le> x \<Longrightarrow> x < 2 \<Longrightarrow> binade x = 0"
proof -
  assume a: "1 \<le> x" "x < 2"
  then have "\<lfloor>x\<rfloor> = 1" by linarith
  with a show ?thesis by (simp add: binade_def compute_bitlen)
qed

lemma pow2_of_int: "(2 :: real) ^ n = of_int (2 ^ n)"
  by simp

lemma binade_ge_one:
  assumes "1 \<le> x"
  shows "0 \<le> binade x" and "2 powi binade x \<le> x"
proof -
  let ?n = "nat (bitlen \<lfloor>x\<rfloor> - 1)"
  from assms have p: "0 < \<lfloor>x\<rfloor>" by linarith
  from bitlen_bounds[OF p] have b: "2 ^ ?n \<le> \<lfloor>x\<rfloor>" by simp
  have one: "1 \<le> bitlen \<lfloor>x\<rfloor>"
    using p by (simp add: bitlen_alt_def)
  then show "0 \<le> binade x" using assms by (simp add: binade_def)
  have "(2 :: real) ^ ?n = of_int (2 ^ ?n)" by (rule pow2_of_int)
  also from b have "\<dots> \<le> of_int \<lfloor>x\<rfloor>" by (rule iffD2[OF of_int_le_iff])
  also have "\<dots> \<le> x" by (rule of_int_floor_le)
  finally have "(2 :: real) ^ ?n \<le> x" .
  with one assms show "2 powi binade x \<le> x"
    by (simp add: binade_def power_int_def)
qed

lemma powi_one_minus:
  assumes "1 \<le> j"
  shows "2 powi (1 - j) = 1 / (2 :: real) ^ nat (j - 1)"
proof (cases "j = 1")
  case True
  then show ?thesis by simp
next
  case False
  with assms have "\<not> 0 \<le> 1 - j" and "nat (- (1 - j)) = nat (j - 1)" by simp_all
  then show ?thesis by (simp add: power_int_def field_simps)
qed

lemma binade_lt_one:
  assumes "0 < x" "x < 1"
  shows "binade x \<le> - 1" and "x < 2 powi (binade x + 1)"
proof -
  let ?c = "\<lceil>1 / x\<rceil>"
  let ?j = "bitlen (?c - 1)"
  let ?n = "nat (?j - 1)"
  from assms have inv: "1 < 1 / x" by simp
  then have c2: "2 \<le> ?c" by linarith
  then have p: "0 < ?c - 1" by simp
  have one: "1 \<le> ?j"
    using p by (simp add: bitlen_alt_def)
  then show "binade x \<le> - 1" using assms by (simp add: binade_def)
  from bitlen_bounds[OF p] have b: "2 ^ ?n \<le> ?c - 1" by simp
  have "(2 :: real) ^ ?n = of_int (2 ^ ?n)" by (rule pow2_of_int)
  also from b have "\<dots> \<le> of_int (?c - 1)" by (rule iffD2[OF of_int_le_iff])
  also have "\<dots> < 1 / x" by simp linarith
  finally have lt: "(2 :: real) ^ ?n < 1 / x" .
  have pos: "(0 :: real) < 2 ^ ?n" by simp
  from lt assms pos have "x < 1 / 2 ^ ?n"
    by (simp add: field_simps)
  moreover have "binade x + 1 = 1 - ?j"
    using assms by (simp add: binade_def)
  ultimately show "x < 2 powi (binade x + 1)"
    using powi_one_minus[OF one] by simp
qed

lemma powi_shift: "(2 :: real) powi (e - 52) * 2 powi k = 2 powi (e - 52 + k)"
  by (rule power_int_add[symmetric]) simp

lemma round64_pos_gt_one:
  assumes "0 < x"
  shows "float_gt_int (float_abs (round64 x)) 1 \<longleftrightarrow> 1 + 1 / 2 ^ 53 < x"
proof -
  define e where "e = max (binade \<bar>x\<bar>) (- 1022)"
  define ulp :: real where "ulp = 2 powi (e - 52)"
  define n where "n = round_half_even (x / ulp)"
  define r where "r = of_int n * ulp"
  define P :: real where "P = 2 powi 52"
  have up: "0 < ulp" by (simp add: ulp_def)
  have Pp: "0 < P" by (simp add: P_def)
  have Pi: "of_int (2 ^ 52) = P" "of_int (2 ^ 53) = 2 * P" by (simp_all add: P_def)
  have s0: "ulp * P = 2 powi e"
    unfolding ulp_def P_def by (simp only: powi_shift) simp
  have s1: "ulp * (2 * P) = 2 powi (e + 1)"
  proof -
    have "2 * P = 2 powi 53" by (simp add: P_def)
    then have "ulp * (2 * P) = 2 powi (e - 52 + 53)"
      unfolding ulp_def by (simp only: powi_shift)
    then show ?thesis by (simp add: add.commute)
  qed
  have big: "(2 :: real) < 2 ^ 1024"
  proof -
    have "(2 :: real) ^ 1 < 2 ^ 1024" by (rule power_strict_increasing) simp_all
    then show ?thesis by simp
  qed
  have r64: "round64 x = (if 2 ^ 1024 \<le> \<bar>r\<bar> then PInf else Finite r)"
    using assms unfolding round64_def Let_def e_def ulp_def n_def r_def float_overflow_def
    by simp
  have ax: "\<bar>x\<bar> = x" using assms by simp
  consider "x < 1" | "1 \<le> x" "x < 2" | "2 \<le> x" by linarith
  then show ?thesis
  proof cases
    case 1
    from binade_lt_one[OF assms 1] have b1: "binade x \<le> - 1"
      and b2: "x < 2 powi (binade x + 1)" .
    have e1: "e \<le> - 1" and e2: "binade x \<le> e" using b1 by (simp_all add: e_def ax)
    from e2 have "(2 :: real) powi (binade x + 1) \<le> 2 powi (e + 1)"
      by (intro power_int_increasing) simp_all
    with b2 have xe: "x < ulp * (2 * P)" unfolding s1 by linarith
    have "x / ulp \<le> 2 * P" using xe up by (simp add: field_simps)
    then have "x / ulp \<le> of_int (2 ^ 53)" unfolding Pi .
    from rhe_le[OF this] have "n \<le> 2 ^ 53" by (simp only: n_def)
    then have "(of_int n :: real) \<le> of_int (2 ^ 53)" by (rule iffD2[OF of_int_le_iff])
    then have n53: "of_int n \<le> 2 * P" unfolding Pi .
    have "of_int 0 \<le> x / ulp" using assms up by simp
    from rhe_ge[OF this] have n0: "0 \<le> n" by (simp only: n_def)
    have "r \<le> (2 * P) * ulp"
      unfolding r_def using n53 up by (intro mult_right_mono) simp_all
    also have "\<dots> = 2 powi (e + 1)" using s1 by (simp only: mult.commute)
    also have "\<dots> \<le> 2 powi 0" using e1 by (intro power_int_increasing) simp_all
    finally have r1: "r \<le> 1" by simp
    have r0: "0 \<le> r" unfolding r_def using n0 up by simp
    from r0 r1 big have "\<bar>r\<bar> < 2 ^ 1024" by linarith
    then have "round64 x = Finite r" unfolding r64 by (simp only: not_le[symmetric] if_False)
    with r0 r1 1 show ?thesis by simp
  next
    case 2
    then have e0: "e = 0" by (simp add: e_def ax binade_one)
    have u: "ulp * P = 1" using s0 by (simp add: e0)
    then have q: "x / ulp = x * P" using up Pp by (simp add: field_simps)
    have "(2 ^ 52 < n) = (of_int (2 ^ 52) + 1 / 2 < x * P)"
      unfolding n_def q by (rule rhe_gt_even) simp
    then have n1: "(2 ^ 52 < n) = (P + 1 / 2 < x * P)" unfolding Pi .
    have "x * P \<le> 2 * P" using 2 Pp by simp
    then have "x * P \<le> of_int (2 ^ 53)" unfolding Pi .
    from rhe_le[OF this] have "n \<le> 2 ^ 53" by (simp only: n_def q)
    then have "(of_int n :: real) \<le> of_int (2 ^ 53)" by (rule iffD2[OF of_int_le_iff])
    then have nle: "of_int n \<le> 2 * P" unfolding Pi .
    have "P \<le> x * P" using 2 Pp by simp
    then have "of_int (2 ^ 52) \<le> x * P" unfolding Pi .
    from rhe_ge[OF this] have "2 ^ 52 \<le> n" by (simp only: n_def q)
    then have "(of_int (2 ^ 52) :: real) \<le> of_int n" by (rule iffD2[OF of_int_le_iff])
    then have nge: "P \<le> of_int n" unfolding Pi .
    have rr: "r * P = of_int n" unfolding r_def using u by (simp add: mult.assoc)
    from rr nle Pp have r2: "r \<le> 2"
      by (metis mult_le_cancel_right_pos)
    from rr nge Pp have r0: "0 \<le> r"
      by (metis less_eq_real_def linorder_not_less mult_less_0_iff order.strict_trans2)
    from r0 r2 big have "\<bar>r\<bar> < 2 ^ 1024" by linarith
    then have fin: "round64 x = Finite r" unfolding r64 by (simp only: not_le[symmetric] if_False)
    have "(1 < r) = (P < r * P)" using Pp by simp
    also have "\<dots> = (of_int (2 ^ 52) < (of_int n :: real))" unfolding rr Pi ..
    also have "\<dots> = (2 ^ 52 < n)" by (rule of_int_less_iff)
    also have "\<dots> = (P + 1 / 2 < x * P)" by (rule n1)
    also have "\<dots> = (P * (1 + 1 / 2 ^ 53) < x * P)"
      by (simp add: P_def field_simps)
    also have "\<dots> = (1 + 1 / 2 ^ 53 < x)"
      using Pp by (simp only: mult.commute[of P] mult_less_cancel_right_pos)
    finally show ?thesis using r0 by (simp add: fin)
  next
    case 3
    then have one: "1 \<le> x" by simp
    from binade_ge_one[OF one] have b0: "0 \<le> binade x" and b1: "2 powi binade x \<le> x" .
    have ee: "e = binade x" using b0 by (simp add: e_def ax)
    have e1: "1 \<le> e"
    proof (rule ccontr)
      assume "\<not> 1 \<le> e"
      with b0 ee have z: "binade x = 0" by simp
      have f2: "\<lfloor>x\<rfloor> \<ge> 2" using 3 by linarith
      from bitlen_bounds[of "\<lfloor>x\<rfloor>"] f2 have "\<lfloor>x\<rfloor> < 2 ^ nat (bitlen \<lfloor>x\<rfloor>)" by simp
      moreover from one z have "bitlen \<lfloor>x\<rfloor> = 1" by (simp add: binade_def)
      ultimately show False using f2 by simp
    qed
    have "ulp * P \<le> x" using b1 unfolding s0 ee .
    then have "P \<le> x / ulp" using up by (simp add: field_simps)
    then have "of_int (2 ^ 52) \<le> x / ulp" unfolding Pi .
    from rhe_ge[OF this] have "2 ^ 52 \<le> n" by (simp only: n_def)
    then have "(of_int (2 ^ 52) :: real) \<le> of_int n" by (rule iffD2[OF of_int_le_iff])
    then have nge: "P \<le> of_int n" unfolding Pi .
    have "2 powi 1 \<le> (2 :: real) powi e" using e1 by (intro power_int_increasing) simp_all
    also have "\<dots> = P * ulp" using s0 by (simp only: mult.commute)
    also have "\<dots> \<le> r"
      unfolding r_def using nge up by (intro mult_right_mono) simp_all
    finally have r2: "2 \<le> r" by simp
    have "float_gt_int (float_abs (round64 x)) 1"
    proof (cases "2 ^ 1024 \<le> \<bar>r\<bar>")
      case True
      then have "round64 x = PInf" unfolding r64 by (simp only: if_True)
      then show ?thesis by simp
    next
      case False
      then have "round64 x = Finite r" unfolding r64 by (simp only: if_False)
      with r2 show ?thesis by simp
    qed
    moreover have "1 + 1 / 2 ^ 53 < x" using 3 by (simp add: field_simps) 
    ultimately show ?thesis by simp
  qed
qed

lemma round64_neg: "x \<noteq> 0 \<Longrightarrow> float_abs (round64 (- x)) = float_abs (round64 x)"
  by (simp add: round64_def Let_def rhe_neg)

lemma round64_gt_one:
  "float_gt_int (float_abs (round64 x)) 1 \<longleftrightarrow> 1 + 1 / 2 ^ 53 < \<bar>x\<bar>"
proof -
  consider "x = 0" | "0 < x" | "x < 0" by linarith
  then show ?thesis
  proof cases
    case 1
    then show ?thesis by (simp add: round64_def)
  next
    case 2
    with round64_pos_gt_one[OF 2] show ?thesis by simp
  next
    case 3
    then have p: "0 < - x" and nz: "x \<noteq> 0" by simp_all
    from round64_pos_gt_one[OF p] round64_neg[OF nz] 3 show ?thesis by simp
  qed
qed

text \<open>
  The test on two finite bounds holds exactly when their exact difference exceeds 1 by
  more than \<open>1 / 2 ^ 53\<close>, half the distance from 1 to the next double above it.
\<close>

lemma float_test_finite:
  "float_gt_int (float_abs (float_sub (Finite b) (Finite a))) 1 = (1 + 1 / 2 ^ 53 < \<bar>b - a\<bar>)"
  by (simp only: float_sub.simps round64_gt_one)

lemma dw_large_aoi_finite:
  "dw_large_aoi (Finite x0, Finite y0, Finite x1, Finite y1) =
     (1 + 1 / 2 ^ 53 < \<bar>x1 - x0\<bar> \<or> 1 + 1 / 2 ^ 53 < \<bar>y1 - y0\<bar>)"
  by (simp only: dw_large_aoi_def Let_def prod.case float_test_finite if_False
        if_bool_eq_disj) blast

lemma s2_large_aoi_finite:
  "s2_large_aoi (Finite x0, Finite y0, Finite x1, Finite y1) =
     (1 + 1 / 2 ^ 53 < \<bar>x1 - x0\<bar> \<or> 1 + 1 / 2 ^ 53 < \<bar>y1 - y0\<bar>)"
  by (simp only: s2_large_aoi_def prod.case float_test_finite)

section \<open>Running statements\<close>


lemma result_bind:
  "result (io_bind m f w) =
     (case result (m w) of Inl e \<Rightarrow> Inl e | Inr a \<Rightarrow> result (f a (final (m w))))"
  by (auto simp: io_bind_def result_def final_def split: prod.splits sum.splits)

lemma events_bind:
  "events (io_bind m f w) =
     events (m w) @ (case result (m w) of Inl e \<Rightarrow> [] | Inr a \<Rightarrow> events (f a (final (m w))))"
  by (auto simp: io_bind_def result_def final_def events_def split: prod.splits sum.splits)

lemma final_bind:
  "final (io_bind m f w) =
     (case result (m w) of Inl e \<Rightarrow> final (m w) | Inr a \<Rightarrow> final (f a (final (m w))))"
  by (auto simp: io_bind_def result_def final_def split: prod.splits sum.splits)

lemma io_return_run:
  "result (io_return a w) = Inr a" "events (io_return a w) = []" "final (io_return a w) = w"
  by (simp_all add: io_return_def result_def events_def final_def)

lemma io_raise_run:
  "result (io_raise e w) = Inl e" "events (io_raise e w) = []" "final (io_raise e w) = w"
  by (simp_all add: io_raise_def result_def events_def final_def)

lemma io_of_run:
  "result (io_of r w) = r" "events (io_of r w) = []" "final (io_of r w) = w"
  by (simp_all add: io_of_def result_def events_def final_def)

lemma emit_run:
  "result (emit e w) = Inr ()" "events (emit e w) = [e]" "final (emit e w) = w"
  by (simp_all add: emit_def result_def events_def final_def)

lemma os_path_exists_run:
  "result (os_path_exists p w) = Inr (p \<in> set (files w) \<or> p \<in> set (dirs w))"
  "events (os_path_exists p w) = []" "final (os_path_exists p w) = w"
  by (simp_all add: os_path_exists_def result_def events_def final_def)

lemma os_makedirs_run:
  "result (os_makedirs p w) =
     (if p \<in> set (files w) \<or> p \<in> set (dirs w) then Inl (FileExistsError p) else Inr ())"
  "events (os_makedirs p w) = [Makedirs p]"
  "final (os_makedirs p w) =
     (if p \<in> set (files w) \<or> p \<in> set (dirs w) then w else w\<lparr>dirs := dirs w @ [p]\<rparr>)"
  by (simp_all add: os_makedirs_def result_def events_def final_def)

lemma os_makedirs_exist_ok_run:
  "result (os_makedirs_exist_ok p w) =
     (if p \<in> set (dirs w) then Inr () else if p \<in> set (files w) then Inl (FileExistsError p)
      else Inr ())"
  "events (os_makedirs_exist_ok p w) = [Makedirs p]"
  "final (os_makedirs_exist_ok p w) =
     (if p \<in> set (dirs w) \<or> p \<in> set (files w) then w else w\<lparr>dirs := dirs w @ [p]\<rparr>)"
  by (simp_all add: os_makedirs_exist_ok_def result_def events_def final_def)

lemma os_remove_run:
  "result (os_remove p w) =
     (if p \<in> set (files w) then Inr () else if p \<in> set (dirs w) then Inl (IsADirectoryError p)
      else Inl (FileNotFoundError p))"
  "events (os_remove p w) = [Remove p]"
  "final (os_remove p w) =
     (if p \<in> set (files w) then w\<lparr>files := removeAll p (files w)\<rparr> else w)"
  by (simp_all add: os_remove_def result_def events_def final_def)

lemma os_rmdir_run:
  "result (os_rmdir p w) =
     (if p \<in> set (dirs w) then
        (if list_ex (below p) (files w @ dirs w) then Inl (DirectoryNotEmpty p) else Inr ())
      else if p \<in> set (files w) then Inl (NotADirectoryError p)
      else Inl (FileNotFoundError p))"
  "events (os_rmdir p w) = [Rmdir p]"
  "final (os_rmdir p w) =
     (if p \<in> set (dirs w) \<and> \<not> list_ex (below p) (files w @ dirs w)
      then w\<lparr>dirs := removeAll p (dirs w)\<rparr> else w)"
  by (simp_all add: os_rmdir_def result_def events_def final_def)

lemma glob_glob_run:
  "result (glob_glob pat w) = Inr (filter (glob_match pat) (files w @ dirs w))"
  "events (glob_glob pat w) = [Glob pat]" "final (glob_glob pat w) = w"
  by (simp_all add: glob_glob_def result_def events_def final_def)

lemma geemap_shp_to_ee_run:
  "result (geemap_shp_to_ee p w) = Inr (Shp_to_ee p)"
  "events (geemap_shp_to_ee p w) = [Load_shp p]" "final (geemap_shp_to_ee p w) = w"
  by (simp_all add: geemap_shp_to_ee_def result_def events_def final_def)

lemma gpd_total_bounds_run:
  "result (gpd_total_bounds p w) = Inr (shp_bounds w p)"
  "events (gpd_total_bounds p w) = [Read_file p]" "final (gpd_total_bounds p w) = w"
  by (simp_all add: gpd_total_bounds_def result_def events_def final_def)

lemma geemap_fishnet_run:
  "result (geemap_fishnet shp r c w) = Inr (Fishnet_of shp r c)"
  "events (geemap_fishnet shp r c w) = [Fishnet shp r c]" "final (geemap_fishnet shp r c w) = w"
  by (simp_all add: geemap_fishnet_def result_def events_def final_def)

lemma geemap_download_ee_image_tiles_run:
  "result (geemap_download_ee_image_tiles img feats out_dir prefix c scale dtype w) = Inr ()"
  "events (geemap_download_ee_image_tiles img feats out_dir prefix c scale dtype w) =
     [Download_ee_image_tiles img feats out_dir prefix c scale dtype]"
  "final (geemap_download_ee_image_tiles img feats out_dir prefix c scale dtype w) =
     foldl (\<lambda>w' n. add_file (os_path_join out_dir (prefix @ n @ ''.tif'')) w') w (tile_names w feats)"
  by (simp_all add: geemap_download_ee_image_tiles_def result_def events_def final_def)

lemma geemap_download_ee_image_run:
  "result (geemap_download_ee_image img filename region c scale dtype w) = Inr ()"
  "events (geemap_download_ee_image img filename region c scale dtype w) =
     [Download_ee_image img filename region c scale dtype]"
  "final (geemap_download_ee_image img filename region c scale dtype w) = add_file filename w"
  by (simp_all add: geemap_download_ee_image_def result_def events_def final_def)

lemma pr_mosaicRasters_run:
  "result (pr_mosaicRasters l out m w) = Inr out"
  "events (pr_mosaicRasters l out m w) = [MosaicRasters l out m]"
  "final (pr_mosaicRasters l out m w) = add_file out w"
  by (simp_all add: pr_mosaicRasters_def result_def events_def final_def)

lemmas io_run = result_bind events_bind final_bind io_return_run io_raise_run io_of_run emit_run
  os_path_exists_run os_makedirs_run os_makedirs_exist_ok_run os_remove_run os_rmdir_run
  glob_glob_run geemap_shp_to_ee_run gpd_total_bounds_run geemap_fishnet_run
  geemap_download_ee_image_tiles_run geemap_download_ee_image_run pr_mosaicRasters_run

lemmas lib_defs = ee_Authenticate_def ee_Initialize_def getInfo_index_def raster_close_def

lemma get_aoi_run:
  "result (get_aoi p w) = Inr (shp_bounds w p, Shp_to_ee p, Geometry (Shp_to_ee p))"
  "events (get_aoi p w) = [Call F_get_aoi, Load_shp p, Read_file p]"
  "final (get_aoi p w) = w"
  by (simp_all add: get_aoi_def io_run)

lemma io_for_events_all:
  assumes "\<And>x w. list_all P (events (body x w))"
  shows "list_all P (events (io_for xs body w))"
  using assms by (induction xs arbitrary: w) (auto simp: io_run split: sum.splits)

lemma io_for_result_ok:
  assumes "\<And>x w. result (body x w) = Inr ()"
  shows "result (io_for xs body w) = Inr ()"
  using assms by (induction xs arbitrary: w) (auto simp: io_run split: sum.splits)

lemma io_for_dirs:
  assumes "\<And>x w. dirs (final (body x w)) = dirs w"
  shows "dirs (final (io_for xs body w)) = dirs w"
  using assms by (induction xs arbitrary: w) (auto simp: io_run split: sum.splits)

lemma dirs_add_file: "dirs (add_file p w) = dirs w"
  by (simp add: add_file_def)

lemma join_probability_ne: "os_path_join a ''probability'' \<noteq> os_path_join a ''temp_tiles''"
  by (simp add: os_path_join_def)

lemma dynworld_col_loop_eq:
  "n \<le> length start_date \<Longrightarrow> n \<le> length end_date \<Longrightarrow>
   dynworld_col_loop aoi start_date end_date [k ..< n] col =
     Inr (foldl Merge col (map (\<lambda>i. dynworld_window aoi (start_date ! i) (end_date ! i)) [k ..< n]))"
proof (induction "n - k" arbitrary: k col)
  case 0
  then show ?case by simp
next
  case (Suc d)
  then have kn: "k < n" by simp
  then have upt: "[k ..< n] = k # [Suc k ..< n]" by (simp add: upt_conv_Cons)
  from Suc have d: "d = n - Suc k" by simp
  show ?case
    using kn Suc.prems Suc.hyps(1)[OF d Suc.prems]
    by (simp add: upt py_index_def dynworld_window_def)
qed

lemma dynworld_col_loop_fails:
  "k \<le> length end_date \<Longrightarrow> length end_date < length start_date \<Longrightarrow>
   dynworld_col_loop aoi start_date end_date [k ..< length start_date] col = Inl IndexError"
proof (induction "length end_date - k" arbitrary: k col)
  case 0
  then have k: "k = length end_date" by simp
  with 0 have upt: "[length end_date ..< length start_date] =
      length end_date # [Suc (length end_date) ..< length start_date]"
    by (simp add: upt_conv_Cons)
  show ?case using 0 unfolding k by (simp add: upt py_index_def)
next
  case (Suc d)
  then have kn: "k < length end_date" by simp
  with Suc have upt: "[k ..< length start_date] = k # [Suc k ..< length start_date]"
    by (simp add: upt_conv_Cons)
  from Suc have d: "d = length end_date - Suc k" by simp
  from kn have k': "Suc k \<le> length end_date" by simp
  show ?case
    using kn Suc.prems Suc.hyps(1)[OF d k' Suc.prems(2)]
    by (simp add: upt py_index_def)
qed

lemma get_dynworld_col_run:
  "result (get_dynworld_col aoi start_date end_date w) =
     (if start_date \<noteq> [] \<and> length start_date \<le> length end_date
      then Inr (foldl Merge (dynworld_window aoi (start_date ! 0) (end_date ! 0))
             (map (\<lambda>i. dynworld_window aoi (start_date ! i) (end_date ! i)) [1 ..< length start_date]))
      else Inl IndexError)"
  "events (get_dynworld_col aoi start_date end_date w) = [Call F_get_dynworld_col]"
  "final (get_dynworld_col aoi start_date end_date w) = w"
proof -
  show "events (get_dynworld_col aoi start_date end_date w) = [Call F_get_dynworld_col]"
    by (simp add: get_dynworld_col_def io_run)
  show "final (get_dynworld_col aoi start_date end_date w) = w"
    by (simp add: get_dynworld_col_def io_run)
  show "result (get_dynworld_col aoi start_date end_date w) =
     (if start_date \<noteq> [] \<and> length start_date \<le> length end_date
      then Inr (foldl Merge (dynworld_window aoi (start_date ! 0) (end_date ! 0))
             (map (\<lambda>i. dynworld_window aoi (start_date ! i) (end_date ! i)) [1 ..< length start_date]))
      else Inl IndexError)"
  proof (cases "start_date \<noteq> [] \<and> length start_date \<le> length end_date")
    case True
    then have "end_date \<noteq> []" by auto
    with True show ?thesis
      by (simp add: get_dynworld_col_def io_run py_index_def dynworld_col_loop_eq
          dynworld_window_def)
  next
    case False
    show ?thesis
    proof (cases "start_date = [] \<or> end_date = []")
      case True
      with False show ?thesis
        by (auto simp: get_dynworld_col_def io_run py_index_def)
    next
      case False
      with \<open>\<not> (start_date \<noteq> [] \<and> length start_date \<le> length end_date)\<close>
      have lt: "length end_date < length start_date" and one: "1 \<le> length end_date"
        by (auto simp: Suc_le_eq)
      show ?thesis
        using False lt dynworld_col_loop_fails[OF one lt]
        by (simp add: get_dynworld_col_def io_run py_index_def)
    qed
  qed
qed



section \<open>The collections that are built\<close>



section \<open>The size test\<close>

text \<open>
  C9. Both functions unpack the bounds (xmin, ymin, xmax, ymax) into variables named
  \<^verbatim>\<open>ymin, xmin, ymax, xmax\<close>. The test they compute is the same in both axes, so for every
  bounding box it agrees with the test written on correctly named coordinates.
\<close>

theorem mislabelled_bounds_same_decision:
  "dw_large_aoi bbox = large_aoi_labelled bbox \<and> s2_large_aoi bbox = large_aoi_labelled bbox"
  by (cases bbox) (auto simp: dw_large_aoi_def s2_large_aoi_def large_aoi_labelled_def)

section \<open>The Sentinel-2 function\<close>

lemma s2_small_run:
  "result (s2_small bands w) = (if bands = [] then Inr () else Inl (NameError ''available_bands''))"
  "events (s2_small bands w) = []"
  "final (s2_small bands w) = w"
  by (cases bands; simp add: s2_small_def io_run)+

lemma s2_large_events_all:
  assumes "\<And>p. P (Makedirs p)" "\<And>s r c. P (Fishnet s r c)" "\<And>p. P (Glob p)"
    "\<And>l out m. P (MosaicRasters l out m)" "\<And>p. P (Close_raster p)"
  shows "list_all P (events (s2_large bands ee_shp out_folder w))"
proof -
  have body: "\<And>tile_dir band w. list_all P (events (s2_mosaic_band tile_dir out_folder band w))"
    using assms by (simp add: s2_mosaic_band_def io_run lib_defs Let_def)
  have loop: "\<And>tile_dir w.
      list_all P (events (io_for bands (s2_mosaic_band tile_dir out_folder) w))"
    by (rule io_for_events_all) (rule body)
  show ?thesis
    using assms loop
    by (simp add: s2_large_def Let_def io_run split: sum.splits)
qed

lemma get_sentinel2_events:
  "events (get_sentinel2 pid shp sd ed out bands epsg res cf cpt ndt cpd buf w) =
     [Authenticate, Initialize pid, Call F_get_aoi, Load_shp shp, Read_file shp] @
     (if s2_large_aoi (shp_bounds w shp)
      then events (s2_large (case bands of None \<Rightarrow> s2_default_bands | Some bs \<Rightarrow> bs)
                     (Shp_to_ee shp) out w)
      else [])"
  by (simp add: get_sentinel2_def io_run lib_defs get_aoi_run s2_small_run Let_def)

lemma get_sentinel2_small:
  assumes "\<not> s2_large_aoi (shp_bounds w shp)"
  shows "result (get_sentinel2 pid shp sd ed out bands epsg res cf cpt ndt cpd buf w) =
           (if bands = Some [] then Inr () else Inl (NameError ''available_bands''))"
    and "final (get_sentinel2 pid shp sd ed out bands epsg res cf cpt ndt cpd buf w) = w"
  using assms
  by (auto simp: get_sentinel2_def io_run lib_defs get_aoi_run s2_small_run Let_def
      s2_default_bands_def split: option.splits)

text \<open>
  C4. On every input, each step of \<open>get_sentinel2\<close> is signing in, loading the AOI, asking
  for the tile grid or handling local files. No step enters the collection builder, the
  cloud-band, shadow-band or mask helpers, asks the service to evaluate a collection, or
  downloads an image; so no reduction is ever requested either.
\<close>

theorem sentinel2_no_pipeline:
  "list_all request_or_file_step
     (events (get_sentinel2 pid shp sd ed out bands epsg res cf cpt ndt cpd buf w))
   \<and> \<not> list_ex pipeline_step
     (events (get_sentinel2 pid shp sd ed out bands epsg res cf cpt ndt cpd buf w))"
proof -
  let ?bs = "case bands of None \<Rightarrow> s2_default_bands | Some bs \<Rightarrow> bs"
  have a: "list_all request_or_file_step (events (s2_large ?bs (Shp_to_ee shp) out w))"
    by (rule s2_large_events_all) (simp_all add: request_or_file_step_def)
  have b: "list_all (\<lambda>e. \<not> pipeline_step e) (events (s2_large ?bs (Shp_to_ee shp) out w))"
    by (rule s2_large_events_all) (simp_all add: pipeline_step_def)
  from a b show ?thesis
    by (simp add: get_sentinel2_events request_or_file_step_def pipeline_step_def
        list_ex_iff list_all_iff)
qed

text \<open>
  C5, as amended. For an AOI that is not large, \<open>get_sentinel2\<close> called with the default
  bands or with any non-empty list of bands ends in \<open>NameError\<close> on \<^verbatim>\<open>available_bands\<close>;
  called with an empty list of bands it returns normally, since the loop body never runs.
  Either way nothing is downloaded and the file system is left as it was.
\<close>

theorem sentinel2_small_aoi_name_error:
  assumes "\<not> s2_large_aoi (shp_bounds w shp)"
  shows "result (get_sentinel2 pid shp sd ed out bands epsg res cf cpt ndt cpd buf w) =
           (if bands = Some [] then Inr () else Inl (NameError ''available_bands''))
       \<and> \<not> list_ex is_download
           (events (get_sentinel2 pid shp sd ed out bands epsg res cf cpt ndt cpd buf w))
       \<and> final (get_sentinel2 pid shp sd ed out bands epsg res cf cpt ndt cpd buf w) = w"
  using assms get_sentinel2_small[OF assms]
  by (simp add: get_sentinel2_events is_download_def)

theorem sentinel2_small_aoi_name_error_witness:
  "\<not> s2_large_aoi (shp_bounds aoi_small_world ''aoi.shp'')
   \<and> result (get_sentinel2 ''my-project'' ''aoi.shp'' [''2024-06-01''] [''2024-09-01''] ''out''
        None (Some 4326) (1 / 10000) 15 40 (15 / 100) 2 0 aoi_small_world) =
       Inl (NameError ''available_bands'')
   \<and> events (get_sentinel2 ''my-project'' ''aoi.shp'' [''2024-06-01''] [''2024-09-01''] ''out''
        None (Some 4326) (1 / 10000) 15 40 (15 / 100) 2 0 aoi_small_world) =
       [Authenticate, Initialize ''my-project'', Call F_get_aoi, Load_shp ''aoi.shp'',
        Read_file ''aoi.shp'']"
proof -
  have small: "\<not> s2_large_aoi (shp_bounds aoi_small_world ''aoi.shp'')"
    by (simp add: aoi_small_world_def s2_large_aoi_finite)
  from sentinel2_small_aoi_name_error [OF small, of "''my-project''" "[''2024-06-01'']"
      "[''2024-09-01'']" "''out''" None "Some 4326" "1 / 10000" 15 40 "15 / 100" 2 0] small
  show ?thesis by (simp add: get_sentinel2_events)
qed

text \<open>
  The claim as stated fails: on a small AOI and an empty list of bands the function
  returns without any error.
\<close>

theorem sentinel2_small_aoi_empty_bands:
  "\<not> s2_large_aoi (shp_bounds aoi_small_world ''aoi.shp'')
   \<and> result (get_sentinel2 ''my-project'' ''aoi.shp'' [''2024-06-01''] [''2024-09-01''] ''out''
        (Some []) (Some 4326) (1 / 10000) 15 40 (15 / 100) 2 0 aoi_small_world) = Inr ()"
  by (simp add: get_sentinel2_small aoi_small_world_def s2_large_aoi_finite)

section \<open>The order of the steps\<close>

text \<open>
  C7. Every run of either public function starts with \<^verbatim>\<open>ee.Authenticate()\<close> and
  \<^verbatim>\<open>ee.Initialize(project=...)\<close>: they are the first two steps, and every request to the
  service, every collection that is built and every download comes after them.
\<close>

theorem authentication_first:
  "take 2 (events (get_dynworld_landcover pid shp sd ed out bands epsg res prob w)) =
     [Authenticate, Initialize pid]
   \<and> take 2 (events (get_sentinel2 pid shp sd ed out bands' epsg res cf cpt ndt cpd buf w)) =
     [Authenticate, Initialize pid]"
  by (simp add: get_sentinel2_events get_dynworld_landcover_def io_run lib_defs)

section \<open>The land-cover function\<close>


lemma guarded_makedirs_run:
  "result (io_bind (os_path_exists p)
      (\<lambda>ex. io_bind (if \<not> ex then os_makedirs p else io_return ()) f) w) =
     result (f () (if p \<in> set (files w) \<or> p \<in> set (dirs w) then w else w\<lparr>dirs := dirs w @ [p]\<rparr>))"
  "events (io_bind (os_path_exists p)
      (\<lambda>ex. io_bind (if \<not> ex then os_makedirs p else io_return ()) f) w) =
     (if p \<in> set (files w) \<or> p \<in> set (dirs w) then [] else [Makedirs p]) @
     events (f () (if p \<in> set (files w) \<or> p \<in> set (dirs w) then w else w\<lparr>dirs := dirs w @ [p]\<rparr>))"
  "final (io_bind (os_path_exists p)
      (\<lambda>ex. io_bind (if \<not> ex then os_makedirs p else io_return ()) f) w) =
     final (f () (if p \<in> set (files w) \<or> p \<in> set (dirs w) then w else w\<lparr>dirs := dirs w @ [p]\<rparr>))"
  by (simp_all add: io_run)

lemma guarded_makedirs_exist_ok_run:
  "result (io_bind (os_path_exists p)
      (\<lambda>ex. io_bind (if \<not> ex then os_makedirs_exist_ok p else io_return ()) f) w) =
     result (f () (if p \<in> set (files w) \<or> p \<in> set (dirs w) then w else w\<lparr>dirs := dirs w @ [p]\<rparr>))"
  "events (io_bind (os_path_exists p)
      (\<lambda>ex. io_bind (if \<not> ex then os_makedirs_exist_ok p else io_return ()) f) w) =
     (if p \<in> set (files w) \<or> p \<in> set (dirs w) then [] else [Makedirs p]) @
     events (f () (if p \<in> set (files w) \<or> p \<in> set (dirs w) then w else w\<lparr>dirs := dirs w @ [p]\<rparr>))"
  "final (io_bind (os_path_exists p)
      (\<lambda>ex. io_bind (if \<not> ex then os_makedirs_exist_ok p else io_return ()) f) w) =
     final (f () (if p \<in> set (files w) \<or> p \<in> set (dirs w) then w else w\<lparr>dirs := dirs w @ [p]\<rparr>))"
  by (simp_all add: io_run)

lemma map_filter_append: "List.map_filter f (xs @ ys) = List.map_filter f xs @ List.map_filter f ys"
  by (simp add: List.map_filter_def)

lemma io_for_remove_events:
  "\<not> list_ex single_shot_step (events (io_for l os_remove w))"
  "List.map_filter mosaic_out_of (events (io_for l os_remove w)) = []"
  "List.map_filter prob_reducer_of (events (io_for l os_remove w)) = []"
  by (induction l arbitrary: w)
     (simp_all add: io_run single_shot_step_def mosaic_out_of_def prob_reducer_of_def
        List.map_filter_simps map_filter_append split: sum.splits)

lemmas io_ev = events_bind result_bind io_return_run(1,2) io_raise_run(1,2) io_of_run(1,2)
  emit_run(1,2) os_path_exists_run(1,2) os_makedirs_run(2) os_makedirs_exist_ok_run(2)
  os_remove_run(2) os_rmdir_run(2) glob_glob_run(1,2) geemap_shp_to_ee_run(1,2)
  gpd_total_bounds_run(1,2) geemap_fishnet_run(1,2) geemap_download_ee_image_tiles_run(1,2)
  geemap_download_ee_image_run(1,2) pr_mosaicRasters_run(1,2)

lemma dw_landcover_large_events:
  "\<exists>l w'. events (dw_landcover_large img shp out c res w) =
     (if os_path_join out ''temp_tiles'' \<in> set (files w) \<or>
         os_path_join out ''temp_tiles'' \<in> set (dirs w)
      then [] else [Makedirs (os_path_join out ''temp_tiles'')]) @
     [Fishnet shp 2 2,
      Download_ee_image_tiles img (Fishnet_of shp 2 2) (os_path_join out ''temp_tiles'')
        ''landcover_'' c res (Some ''int8''),
      Glob (os_path_join (os_path_join out ''temp_tiles'') ''*.tif''),
      MosaicRasters l (os_path_join out ''landcover.tif'') ''trim'',
      Close_raster (os_path_join out ''landcover.tif'')] @
     events (io_for l os_remove w') @
     (case result (io_for l os_remove w') of
        Inl e \<Rightarrow> [] | Inr u \<Rightarrow> [Rmdir (os_path_join out ''temp_tiles'')])"
  apply (simp only: dw_landcover_large_def Let_def)
  apply (simp only: guarded_makedirs_run)
  apply (simp only: io_ev lib_defs sum.case append_Cons append_Nil)
  apply (intro exI)
  apply (rule refl)
  done

lemma dw_landcover_large_tiles:
  "list_ex (tile_step out) (events (dw_landcover_large img shp out c res w))"
  "\<not> list_ex single_shot_step (events (dw_landcover_large img shp out c res w))"
  "mosaic_outputs (events (dw_landcover_large img shp out c res w)) =
     [os_path_join out ''landcover.tif'']"
  "prob_reducers (events (dw_landcover_large (Reduce col r) shp out c res w)) = []"
proof -
  obtain l w' where ev: "events (dw_landcover_large img shp out c res w) =
     (if os_path_join out ''temp_tiles'' \<in> set (files w) \<or>
         os_path_join out ''temp_tiles'' \<in> set (dirs w)
      then [] else [Makedirs (os_path_join out ''temp_tiles'')]) @
     [Fishnet shp 2 2,
      Download_ee_image_tiles img (Fishnet_of shp 2 2) (os_path_join out ''temp_tiles'')
        ''landcover_'' c res (Some ''int8''),
      Glob (os_path_join (os_path_join out ''temp_tiles'') ''*.tif''),
      MosaicRasters l (os_path_join out ''landcover.tif'') ''trim'',
      Close_raster (os_path_join out ''landcover.tif'')] @
     events (io_for l os_remove w') @
     (case result (io_for l os_remove w') of
        Inl e \<Rightarrow> [] | Inr u \<Rightarrow> [Rmdir (os_path_join out ''temp_tiles'')])"
    using dw_landcover_large_events by blast
  show "list_ex (tile_step out) (events (dw_landcover_large img shp out c res w))"
    by (simp add: ev tile_step_def)
  show "\<not> list_ex single_shot_step (events (dw_landcover_large img shp out c res w))"
    by (simp add: ev single_shot_step_def io_for_remove_events split: sum.splits)
  show "mosaic_outputs (events (dw_landcover_large img shp out c res w)) =
     [os_path_join out ''landcover.tif'']"
    by (simp add: ev mosaic_outputs_def mosaic_out_of_def io_for_remove_events
        map_filter_append List.map_filter_simps split: sum.splits)
  obtain l2 w2 where ev2: "events (dw_landcover_large (Reduce col r) shp out c res w) =
     (if os_path_join out ''temp_tiles'' \<in> set (files w) \<or>
         os_path_join out ''temp_tiles'' \<in> set (dirs w)
      then [] else [Makedirs (os_path_join out ''temp_tiles'')]) @
     [Fishnet shp 2 2,
      Download_ee_image_tiles (Reduce col r) (Fishnet_of shp 2 2) (os_path_join out ''temp_tiles'')
        ''landcover_'' c res (Some ''int8''),
      Glob (os_path_join (os_path_join out ''temp_tiles'') ''*.tif''),
      MosaicRasters l2 (os_path_join out ''landcover.tif'') ''trim'',
      Close_raster (os_path_join out ''landcover.tif'')] @
     events (io_for l2 os_remove w2) @
     (case result (io_for l2 os_remove w2) of
        Inl e \<Rightarrow> [] | Inr u \<Rightarrow> [Rmdir (os_path_join out ''temp_tiles'')])"
    using dw_landcover_large_events by blast
  show "prob_reducers (events (dw_landcover_large (Reduce col r) shp out c res w)) = []"
    by (simp add: ev2 prob_reducers_def prob_reducer_of_def reducer_of_image_def
        io_for_remove_events map_filter_append List.map_filter_simps split: sum.splits)
qed

lemma dw_landcover_small_run:
  "result (dw_landcover_small img g out c res w) = Inr ()"
  "events (dw_landcover_small img g out c res w) =
     [Download_ee_image img (os_path_join out ''landcover.tif'') g c res (Some ''int8'')]"
  "final (dw_landcover_small img g out c res w) = add_file (os_path_join out ''landcover.tif'') w"
  by (simp_all add: dw_landcover_small_def io_run)

lemma dw_prob_loops_result:
  "result (io_for bands (dw_prob_band_large pm feats od c res) w) = Inr ()"
  "result (io_for bands (dw_prob_band_small pm od g c res) w) = Inr ()"
  by (rule io_for_result_ok, simp add: dw_prob_band_large_def dw_prob_band_small_def io_run)+

lemma dw_probability_result:
  "result (dw_probability pt col bands large shp g out c res w) = Inr ()"
  by (simp add: dw_probability_def Let_def guarded_makedirs_exist_ok_run io_run
      dw_prob_loops_result)

lemma dw_prob_large_loop_events:
  "events (io_for bands (dw_prob_band_large pm feats od c res) w) =
     map (\<lambda>band. Download_ee_image_tiles (Select pm (Band band)) feats od
            (''landcover_'' @ band @ ''_'') c res None) bands"
  by (induction bands arbitrary: w) (simp_all add: io_run dw_prob_band_large_def)

lemma dw_prob_small_loop_events:
  "events (io_for bands (dw_prob_band_small pm od g c res) w) =
     map (\<lambda>band. Download_ee_image (Select pm (Band band))
            (os_path_join od (''landcover_prob_'' @ band @ ''.tif'')) g c res None) bands"
  by (induction bands arbitrary: w) (simp_all add: io_run dw_prob_band_small_def)

lemma dw_probability_events:
  "\<exists>pre. (pre = [] \<or> pre = [Makedirs (os_path_join out ''probability'')]) \<and>
     events (dw_probability pt col bands large shp g out c res w) =
       pre @
       (let pm = Select (Reduce (Select_col col (Bands bands))
                    (if pt = ''mean'' then Reducer_mean else Reducer_median)) (Bands bands) in
        if large then
          Fishnet shp 2 2 #
          map (\<lambda>band. Download_ee_image_tiles (Select pm (Band band)) (Fishnet_of shp 2 2)
                 (os_path_join out ''probability'') (''landcover_'' @ band @ ''_'') c res None) bands
        else
          map (\<lambda>band. Download_ee_image (Select pm (Band band))
                 (os_path_join (os_path_join out ''probability'')
                    (''landcover_prob_'' @ band @ ''.tif'')) g c res None) bands)"
  by (simp add: dw_probability_def Let_def guarded_makedirs_exist_ok_run io_run
      dw_prob_large_loop_events dw_prob_small_loop_events)

lemma map_filter_map_Some:
  "(\<And>x. g (f x) = Some (h x)) \<Longrightarrow> List.map_filter g (map f xs) = map h xs"
  by (induction xs) (simp_all add: List.map_filter_simps)

lemma map_filter_map_None:
  "(\<And>x. g (f x) = None) \<Longrightarrow> List.map_filter g (map f xs) = []"
  by (induction xs) (simp_all add: List.map_filter_simps)

lemma list_ex_map_all: "(\<And>x. P (f x)) \<Longrightarrow> list_ex P (map f xs) = (xs \<noteq> [])"
  by (induction xs) simp_all

lemma list_ex_map_none: "(\<And>x. \<not> P (f x)) \<Longrightarrow> list_ex P (map f xs) = False"
  by (induction xs) simp_all

lemma dw_probability_tiles:
  "list_ex (tile_step out) (events (dw_probability pt col bands large shp g out c res w)) = large"
  "list_ex single_shot_step (events (dw_probability pt col bands large shp g out c res w)) =
     (\<not> large \<and> bands \<noteq> [])"
  "mosaic_outputs (events (dw_probability pt col bands large shp g out c res w)) = []"
  "prob_reducers (events (dw_probability pt col bands large shp g out c res w)) =
     replicate (length bands) (if pt = ''mean'' then Reducer_mean else Reducer_median)"
proof -
  let ?R = "if pt = ''mean'' then Reducer_mean else Reducer_median"
  let ?pm = "Select (Reduce (Select_col col (Bands bands)) ?R) (Bands bands)"
  let ?tiles = "map (\<lambda>band. Download_ee_image_tiles (Select ?pm (Band band)) (Fishnet_of shp 2 2)
                 (os_path_join out ''probability'') (''landcover_'' @ band @ ''_'') c res None) bands"
  let ?single = "map (\<lambda>band. Download_ee_image (Select ?pm (Band band))
                 (os_path_join (os_path_join out ''probability'')
                    (''landcover_prob_'' @ band @ ''.tif'')) g c res None) bands"
  obtain pre where pre: "pre = [] \<or> pre = [Makedirs (os_path_join out ''probability'')]"
    and ev: "events (dw_probability pt col bands large shp g out c res w) =
       pre @ (if large then Fishnet shp 2 2 # ?tiles else ?single)"
    using dw_probability_events[of out pt col bands large shp g c res w]
    unfolding Let_def by blast
  have t1: "list_ex (tile_step out) ?tiles = (bands \<noteq> [])"
    by (rule list_ex_map_all) (simp add: tile_step_def)
  have t2: "list_ex (tile_step out) ?single = False"
    by (rule list_ex_map_none) (simp add: tile_step_def)
  have t3: "list_ex single_shot_step ?tiles = False"
    by (rule list_ex_map_none) (simp add: single_shot_step_def)
  have t4: "list_ex single_shot_step ?single = (bands \<noteq> [])"
    by (rule list_ex_map_all) (simp add: single_shot_step_def)
  have t5: "List.map_filter mosaic_out_of ?tiles = []"
    by (rule map_filter_map_None) (simp add: mosaic_out_of_def)
  have t6: "List.map_filter mosaic_out_of ?single = []"
    by (rule map_filter_map_None) (simp add: mosaic_out_of_def)
  have t7: "List.map_filter prob_reducer_of ?tiles = map (\<lambda>b. ?R) bands"
    by (rule map_filter_map_Some) (simp add: prob_reducer_of_def reducer_of_image_def)
  have t8: "List.map_filter prob_reducer_of ?single = map (\<lambda>b. ?R) bands"
    by (rule map_filter_map_Some) (simp add: prob_reducer_of_def reducer_of_image_def)
  have p1: "\<not> list_ex (tile_step out) pre"
    using pre join_probability_ne[of out] by (auto simp: tile_step_def)
  have p2: "\<not> list_ex single_shot_step pre"
    using pre by (auto simp: single_shot_step_def)
  have p3: "List.map_filter mosaic_out_of pre = []"
    using pre by (auto simp: List.map_filter_simps mosaic_out_of_def)
  have p4: "List.map_filter prob_reducer_of pre = []"
    using pre by (auto simp: List.map_filter_simps prob_reducer_of_def)
  show "list_ex (tile_step out) (events (dw_probability pt col bands large shp g out c res w)) = large"
    unfolding ev using p1 t1 t2 by (simp add: tile_step_def)
  show "list_ex single_shot_step (events (dw_probability pt col bands large shp g out c res w)) =
     (\<not> large \<and> bands \<noteq> [])"
    unfolding ev using p2 t3 t4 by (simp add: single_shot_step_def)
  show "mosaic_outputs (events (dw_probability pt col bands large shp g out c res w)) = []"
    unfolding ev mosaic_outputs_def using p3 t5 t6
    by (simp add: map_filter_append List.map_filter_simps mosaic_out_of_def)
  show "prob_reducers (events (dw_probability pt col bands large shp g out c res w)) =
     replicate (length bands) ?R"
  proof -
    have f1: "prob_reducer_of (Fishnet shp 2 2) = None"
      by (simp add: prob_reducer_of_def)
    have "List.map_filter prob_reducer_of
            (pre @ (if large then Fishnet shp 2 2 # ?tiles else ?single)) = map (\<lambda>b. ?R) bands"
      by (cases large)
         (simp_all only: if_True if_False map_filter_append p4 t7 t8 List.map_filter_simps
            append_Nil f1 option.case)
    then show ?thesis
      unfolding ev prob_reducers_def by (simp only: map_replicate_const)
  qed
qed


lemma get_dynworld_landcover_events:
  "events (get_dynworld_landcover pid shp sd ed out bands epsg res prob w) =
   [Authenticate, Initialize pid, Call F_get_aoi, Load_shp shp, Read_file shp,
    Call F_get_dynworld_col] @
   (case result (get_dynworld_col (Geometry (Shp_to_ee shp)) sd ed w) of
      Inl e \<Rightarrow> []
    | Inr col \<Rightarrow>
        GetInfo_index col #
        (let g = Geometry (Shp_to_ee shp);
             bs = (case bands of None \<Rightarrow> dw_default_bands | Some bs \<Rightarrow> bs);
             large = dw_large_aoi (shp_bounds w shp);
             img = Reduce (Select_col col (Band ''label'')) Reducer_mode;
             lc = (if large then dw_landcover_large img g out (EPSG epsg) res
                   else dw_landcover_small img g out (EPSG epsg) res)
         in events (lc w) @
            (case result (lc w) of
               Inl e \<Rightarrow> []
             | Inr u \<Rightarrow>
                 (case prob of
                    None \<Rightarrow> []
                  | Some pt \<Rightarrow>
                      events (dw_probability pt col bs large g g out (EPSG epsg) res
                                (final (lc w)))))))"
  by (simp add: get_dynworld_landcover_def io_run lib_defs get_aoi_run get_dynworld_col_run(2,3)
      Let_def split: sum.splits option.splits)

lemma get_dynworld_landcover_result:
  "result (get_dynworld_landcover pid shp sd ed out bands epsg res prob w) =
   (case result (get_dynworld_col (Geometry (Shp_to_ee shp)) sd ed w) of
      Inl e \<Rightarrow> Inl e
    | Inr col \<Rightarrow>
        (let g = Geometry (Shp_to_ee shp);
             large = dw_large_aoi (shp_bounds w shp);
             img = Reduce (Select_col col (Band ''label'')) Reducer_mode;
             lc = (if large then dw_landcover_large img g out (EPSG epsg) res
                   else dw_landcover_small img g out (EPSG epsg) res)
         in result (lc w)))"
  by (simp add: get_dynworld_landcover_def io_run lib_defs get_aoi_run get_dynworld_col_run(2,3)
      dw_probability_result Let_def split: sum.splits option.splits)

lemma get_dynworld_landcover_strategy:
  "uses_tiles out (events (get_dynworld_landcover pid shp sd ed out bands epsg res prob w)) =
     (dw_large_aoi (shp_bounds w shp) \<and> sd \<noteq> [] \<and> length sd \<le> length ed)"
  "uses_single_shot (events (get_dynworld_landcover pid shp sd ed out bands epsg res prob w)) =
     (\<not> dw_large_aoi (shp_bounds w shp) \<and> sd \<noteq> [] \<and> length sd \<le> length ed)"
  by (simp_all add: get_dynworld_landcover_events uses_tiles_def uses_single_shot_def
      get_dynworld_col_run(1) Let_def tile_step_def single_shot_step_def
      dw_landcover_large_tiles dw_landcover_small_run dw_probability_tiles
      split: sum.splits option.splits)

lemma s2_large_first:
  "\<exists>rest. events (s2_large bands shp out w) = Makedirs (os_path_join out ''temp_tiles'') # rest"
  by (simp add: s2_large_def Let_def io_run)

lemma s2_large_no_single:
  "\<not> list_ex single_shot_step (events (s2_large bands shp out w))"
proof -
  have "list_all (\<lambda>e. \<not> single_shot_step e) (events (s2_large bands shp out w))"
    by (rule s2_large_events_all) (simp_all add: single_shot_step_def)
  then show ?thesis by (simp add: list_all_iff list_ex_iff)
qed

lemma get_sentinel2_strategy:
  "uses_tiles out (events (get_sentinel2 pid shp sd ed out bands epsg res cf cpt ndt cpd buf w)) =
     s2_large_aoi (shp_bounds w shp)"
  "\<not> uses_single_shot (events (get_sentinel2 pid shp sd ed out bands epsg res cf cpt ndt cpd buf w))"
proof -
  obtain rest where r: "events (s2_large (case bands of None \<Rightarrow> s2_default_bands | Some bs \<Rightarrow> bs)
      (Shp_to_ee shp) out w) = Makedirs (os_path_join out ''temp_tiles'') # rest"
    using s2_large_first by blast
  show "uses_tiles out (events (get_sentinel2 pid shp sd ed out bands epsg res cf cpt ndt cpd buf w)) =
     s2_large_aoi (shp_bounds w shp)"
    by (simp add: get_sentinel2_events uses_tiles_def tile_step_def r)
  show "\<not> uses_single_shot (events (get_sentinel2 pid shp sd ed out bands epsg res cf cpt ndt cpd buf w))"
    using s2_large_no_single
    by (simp add: get_sentinel2_events uses_single_shot_def single_shot_step_def)
qed








section \<open>The download strategy\<close>




text \<open>
  C8. The strategy depends on the AOI through its total bounds only: two shapefiles with
  the same bounds lead both functions to the same strategy, whatever else differs between
  the two shapefiles and the worlds they are read in.
\<close>

theorem strategy_depends_on_bounds_only:
  assumes "shp_bounds w1 shp1 = shp_bounds w2 shp2"
  shows "uses_tiles out (events (get_dynworld_landcover pid shp1 sd ed out bands epsg res prob w1))
       = uses_tiles out (events (get_dynworld_landcover pid shp2 sd ed out bands epsg res prob w2))
     \<and> uses_single_shot (events (get_dynworld_landcover pid shp1 sd ed out bands epsg res prob w1))
       = uses_single_shot (events (get_dynworld_landcover pid shp2 sd ed out bands epsg res prob w2))
     \<and> uses_tiles out (events (get_sentinel2 pid shp1 sd ed out bands' epsg res' cf cpt ndt cpd buf w1))
       = uses_tiles out (events (get_sentinel2 pid shp2 sd ed out bands' epsg res' cf cpt ndt cpd buf w2))"
  using assms
  by (simp add: get_dynworld_landcover_strategy get_sentinel2_strategy)

theorem strategy_depends_on_bounds_only_witness:
  "shp_bounds aoi_large_world ''square.shp'' = shp_bounds tiles_present_world ''ring.shp''
   \<and> uses_tiles ''out'' (events (get_dynworld_landcover ''my-project'' ''square.shp''
        [''2024-06-01''] [''2024-09-01''] ''out'' None (Some 4326) 10 None aoi_large_world))
     = uses_tiles ''out'' (events (get_dynworld_landcover ''my-project'' ''ring.shp''
        [''2024-06-01''] [''2024-09-01''] ''out'' None (Some 4326) 10 None tiles_present_world))
   \<and> uses_tiles ''out'' (events (get_sentinel2 ''my-project'' ''square.shp''
        [''2024-06-01''] [''2024-09-01''] ''out'' None (Some 4326) (1 / 10000) 15 40 (15 / 100) 2 0
        aoi_large_world))
     = uses_tiles ''out'' (events (get_sentinel2 ''my-project'' ''ring.shp''
        [''2024-06-01''] [''2024-09-01''] ''out'' None (Some 4326) (1 / 10000) 15 40 (15 / 100) 2 0
        tiles_present_world))"
proof -
  have b: "shp_bounds aoi_large_world ''square.shp'' = shp_bounds tiles_present_world ''ring.shp''"
    by (simp add: aoi_large_world_def tiles_present_world_def)
  from strategy_depends_on_bounds_only [OF b, of "''out''" "''my-project''" "[''2024-06-01'']"
      "[''2024-09-01'']" None "Some 4326" 10 None None "1 / 10000" 15 40 "15 / 100" 2 0] b
  show ?thesis by simp
qed

section \<open>The probability statistics\<close>

lemma dw_probability_other:
  "pt \<noteq> ''mean'' \<Longrightarrow> dw_probability pt = dw_probability ''median''"
  by (intro ext) (simp add: dw_probability_def)

lemma get_dynworld_landcover_reducers:
  "prob_reducers (events (get_dynworld_landcover pid shp sd ed out bands epsg res (Some pt) w)) =
     (if result (get_dynworld_landcover pid shp sd ed out bands epsg res None w) = Inr ()
      then replicate (length (case bands of None \<Rightarrow> dw_default_bands | Some bs \<Rightarrow> bs))
             (if pt = ''mean'' then Reducer_mean else Reducer_median)
      else [])"
proof -
  have pre: "\<And>xs. prob_reducers ([Authenticate, Initialize pid, Call F_get_aoi, Load_shp shp,
      Read_file shp, Call F_get_dynworld_col] @ xs) = prob_reducers xs"
    by (simp add: prob_reducers_def List.map_filter_simps prob_reducer_of_def)
  have gi: "\<And>col xs. prob_reducers (GetInfo_index col # xs) = prob_reducers xs"
    by (simp add: prob_reducers_def List.map_filter_simps prob_reducer_of_def)
  have app: "\<And>xs ys. prob_reducers (xs @ ys) = prob_reducers xs @ prob_reducers ys"
    by (simp add: prob_reducers_def map_filter_append)
  have nil: "prob_reducers [] = []"
    by (simp add: prob_reducers_def List.map_filter_simps)
  have small: "\<And>img g c w. prob_reducers (events (dw_landcover_small (Reduce img Reducer_mode)
      g out c res w)) = []"
    by (simp add: dw_landcover_small_run prob_reducers_def List.map_filter_simps
        prob_reducer_of_def reducer_of_image_def)
  show ?thesis
    unfolding get_dynworld_landcover_events get_dynworld_landcover_result pre
    by (simp add: gi app nil small dw_landcover_large_tiles(4) dw_probability_tiles(4)
        dw_landcover_small_run(1) Let_def split: sum.splits)
qed

text \<open>
  C10. \<open>get_dynworld_landcover\<close> never rejects a value of \<^verbatim>\<open>prob_type\<close>. A run with any
  string \<open>pt\<close> ends as the run without probabilities ends, so the value adds no error.
  Every string other than \<^verbatim>\<open>'mean'\<close> behaves as \<^verbatim>\<open>'median'\<close> does. When the land-cover
  part succeeds, one probability download is issued per band, each of an image reduced
  with the mean when \<open>pt\<close> is \<^verbatim>\<open>'mean'\<close> and with the median for every other string.
\<close>

theorem prob_type_never_rejected:
  "result (get_dynworld_landcover pid shp sd ed out bands epsg res (Some pt) w) =
     result (get_dynworld_landcover pid shp sd ed out bands epsg res None w)
   \<and> get_dynworld_landcover pid shp sd ed out bands epsg res (Some pt) w =
     get_dynworld_landcover pid shp sd ed out bands epsg res
       (Some (if pt = ''mean'' then ''mean'' else ''median'')) w
   \<and> prob_reducers (events (get_dynworld_landcover pid shp sd ed out bands epsg res (Some pt) w)) =
     (if result (get_dynworld_landcover pid shp sd ed out bands epsg res None w) = Inr ()
      then replicate (length (case bands of None \<Rightarrow> dw_default_bands | Some bs \<Rightarrow> bs))
             (if pt = ''mean'' then Reducer_mean else Reducer_median)
      else [])"
proof -
  have a: "result (get_dynworld_landcover pid shp sd ed out bands epsg res (Some pt) w) =
     result (get_dynworld_landcover pid shp sd ed out bands epsg res None w)"
    by (simp add: get_dynworld_landcover_result)
  have b: "get_dynworld_landcover pid shp sd ed out bands epsg res (Some pt) w =
     get_dynworld_landcover pid shp sd ed out bands epsg res
       (Some (if pt = ''mean'' then ''mean'' else ''median'')) w"
  proof (cases "pt = ''mean''")
    case True
    then show ?thesis by simp
  next
    case False
    from dw_probability_other[OF False] False show ?thesis
      by (simp add: get_dynworld_landcover_def)
  qed
  from a b get_dynworld_landcover_reducers show ?thesis by simp
qed

section \<open>Mosaics and temporary tiles\<close>

lemma get_dynworld_landcover_mosaics:
  "mosaic_outputs (events (get_dynworld_landcover pid shp sd ed out bands epsg res prob w)) =
     (if dw_large_aoi (shp_bounds w shp) \<and> sd \<noteq> [] \<and> length sd \<le> length ed
      then [os_path_join out ''landcover.tif''] else [])"
proof -
  have pre: "\<And>xs. mosaic_outputs ([Authenticate, Initialize pid, Call F_get_aoi, Load_shp shp,
      Read_file shp, Call F_get_dynworld_col] @ xs) = mosaic_outputs xs"
    by (simp add: mosaic_outputs_def List.map_filter_simps mosaic_out_of_def)
  have gi: "\<And>col xs. mosaic_outputs (GetInfo_index col # xs) = mosaic_outputs xs"
    by (simp add: mosaic_outputs_def List.map_filter_simps mosaic_out_of_def)
  have app: "\<And>xs ys. mosaic_outputs (xs @ ys) = mosaic_outputs xs @ mosaic_outputs ys"
    by (simp add: mosaic_outputs_def map_filter_append)
  have nil: "mosaic_outputs [] = []"
    by (simp add: mosaic_outputs_def List.map_filter_simps)
  have small: "\<And>img g c w. mosaic_outputs (events (dw_landcover_small img g out c res w)) = []"
    by (simp add: dw_landcover_small_run mosaic_outputs_def List.map_filter_simps
        mosaic_out_of_def)
  show ?thesis
    unfolding get_dynworld_landcover_events pre
    by (simp add: gi app nil small dw_landcover_large_tiles(3) dw_probability_tiles(3)
        get_dynworld_col_run(1) Let_def split: sum.splits option.splits)
qed

text \<open>
  C2, where the code departs from the claim. On a large AOI the only mosaic a run of
  \<open>get_dynworld_landcover\<close> writes is \<^verbatim>\<open>landcover.tif\<close>, whatever \<^verbatim>\<open>prob_type\<close> and the bands
  are: the probability tiles of lines 173 to 182 are downloaded into the probability
  folder and never handed to \<^verbatim>\<open>pr.mosaicRasters\<close>.
\<close>

theorem probability_tiles_not_mosaicked:
  assumes "dw_large_aoi (shp_bounds w shp)" and "sd \<noteq> []" and "length sd \<le> length ed"
  shows "mosaic_outputs (events (get_dynworld_landcover pid shp sd ed out bands epsg res prob w)) =
           [os_path_join out ''landcover.tif'']"
  using assms by (simp add: get_dynworld_landcover_mosaics)

text \<open>
  The run on a large AOI with \<^verbatim>\<open>prob_type='mean'\<close> and the band \<^verbatim>\<open>water\<close>: it returns
  normally, and the probability folder holds the four tiles of the band, not one raster.
\<close>

theorem probability_tiles_not_mosaicked_witness:
  "dw_large_aoi (shp_bounds aoi_large_world ''aoi.shp'')
   \<and> [''2024-06-01''] \<noteq> [] \<and> length [''2024-06-01''] \<le> length [''2024-09-01'']
   \<and> mosaic_outputs (events (get_dynworld_landcover ''my-project'' ''aoi.shp'' [''2024-06-01'']
        [''2024-09-01''] ''out'' (Some [''water'']) (Some 4326) 10 (Some ''mean'') aoi_large_world)) =
       [''out/landcover.tif'']
   \<and> result (get_dynworld_landcover ''my-project'' ''aoi.shp'' [''2024-06-01'']
        [''2024-09-01''] ''out'' (Some [''water'']) (Some 4326) 10 (Some ''mean'') aoi_large_world) =
       Inr ()
   \<and> files (final (get_dynworld_landcover ''my-project'' ''aoi.shp'' [''2024-06-01'']
        [''2024-09-01''] ''out'' (Some [''water'']) (Some 4326) 10 (Some ''mean'') aoi_large_world)) =
       [''out/landcover.tif'', ''out/probability/landcover_water_1.tif'',
        ''out/probability/landcover_water_2.tif'', ''out/probability/landcover_water_3.tif'',
        ''out/probability/landcover_water_4.tif'']"
proof -
  have large: "dw_large_aoi (shp_bounds aoi_large_world ''aoi.shp'')"
    by (simp add: aoi_large_world_def dw_large_aoi_finite)
  have d: "[''2024-06-01''] \<noteq> []" "length [''2024-06-01''] \<le> length [''2024-09-01'']"
    by simp_all
  have join: "os_path_join ''out'' ''landcover.tif'' = ''out/landcover.tif''"
    by (simp add: os_path_join_def)
  have r: "result (get_dynworld_landcover ''my-project'' ''aoi.shp'' [''2024-06-01'']
        [''2024-09-01''] ''out'' (Some [''water'']) (Some 4326) 10 (Some ''mean'') aoi_large_world) =
       Inr ()"
    by code_simp
  have f: "files (final (get_dynworld_landcover ''my-project'' ''aoi.shp'' [''2024-06-01'']
        [''2024-09-01''] ''out'' (Some [''water'']) (Some 4326) 10 (Some ''mean'') aoi_large_world)) =
       [''out/landcover.tif'', ''out/probability/landcover_water_1.tif'',
        ''out/probability/landcover_water_2.tif'', ''out/probability/landcover_water_3.tif'',
        ''out/probability/landcover_water_4.tif'']"
    by code_simp
  from probability_tiles_not_mosaicked [OF large d, of "''my-project''" "''out''"
      "Some [''water'']" "Some 4326" 10 "Some ''mean''"]
  have m: "mosaic_outputs (events (get_dynworld_landcover ''my-project'' ''aoi.shp''
        [''2024-06-01''] [''2024-09-01''] ''out'' (Some [''water'']) (Some 4326) 10 (Some ''mean'')
        aoi_large_world)) = [''out/landcover.tif'']"
    by (simp only: join)
  from large d m r f show ?thesis by (intro conjI)
qed

lemma s2_mosaic_band_run:
  "result (s2_mosaic_band td out band w) = Inr ()"
  "dirs (final (s2_mosaic_band td out band w)) = dirs w"
  by (simp_all add: s2_mosaic_band_def Let_def io_run lib_defs dirs_add_file)

lemma s2_large_run:
  "result (s2_large bands shp out w) =
     result (os_makedirs_exist_ok (os_path_join out ''temp_tiles'') w)"
  "dirs (final (s2_large bands shp out w)) =
     dirs (final (os_makedirs_exist_ok (os_path_join out ''temp_tiles'') w))"
proof -
  have r: "\<And>td w. result (io_for bands (s2_mosaic_band td out) w) = Inr ()"
    by (rule io_for_result_ok) (rule s2_mosaic_band_run)
  have d: "\<And>td w. dirs (final (io_for bands (s2_mosaic_band td out) w)) = dirs w"
    by (rule io_for_dirs) (rule s2_mosaic_band_run)
  show "result (s2_large bands shp out w) =
     result (os_makedirs_exist_ok (os_path_join out ''temp_tiles'') w)"
    by (simp add: s2_large_def Let_def result_bind geemap_fishnet_run r split: sum.splits)
  show "dirs (final (s2_large bands shp out w)) =
     dirs (final (os_makedirs_exist_ok (os_path_join out ''temp_tiles'') w))"
    by (simp add: s2_large_def Let_def final_bind result_bind geemap_fishnet_run d
        split: sum.splits)
qed

lemma get_sentinel2_large:
  assumes "s2_large_aoi (shp_bounds w shp)"
  shows "result (get_sentinel2 pid shp sd ed out bands epsg res cf cpt ndt cpd buf w) =
           result (s2_large (case bands of None \<Rightarrow> s2_default_bands | Some bs \<Rightarrow> bs)
                     (Shp_to_ee shp) out w)"
    and "final (get_sentinel2 pid shp sd ed out bands epsg res cf cpt ndt cpd buf w) =
           final (s2_large (case bands of None \<Rightarrow> s2_default_bands | Some bs \<Rightarrow> bs)
                     (Shp_to_ee shp) out w)"
  using assms
  by (simp_all add: get_sentinel2_def result_bind final_bind emit_run lib_defs get_aoi_run Let_def)

text \<open>
  C3, where the code departs from the claim. Whenever \<open>get_sentinel2\<close> completes on a
  large AOI, the directory \<^verbatim>\<open>temp_tiles\<close> still exists: the function creates it at line 371
  and the cleanup of lines 400 to 404 is a comment.
\<close>

theorem sentinel2_keeps_temp_tiles:
  assumes "s2_large_aoi (shp_bounds w shp)"
    and "result (get_sentinel2 pid shp sd ed out bands epsg res cf cpt ndt cpd buf w) = Inr ()"
  shows "os_path_join out ''temp_tiles'' \<in>
           set (dirs (final (get_sentinel2 pid shp sd ed out bands epsg res cf cpt ndt cpd buf w)))"
  using assms
  by (simp add: get_sentinel2_large s2_large_run os_makedirs_exist_ok_run split: if_splits)

text \<open>
  The run on a large AOI whose tile directory holds the tiles of band B2: it returns
  normally, and the directory and both tiles are still there beside the mosaic.
\<close>

theorem sentinel2_keeps_temp_tiles_witness:
  "s2_large_aoi (shp_bounds tiles_present_world ''aoi.shp'')
   \<and> result (get_sentinel2 ''my-project'' ''aoi.shp'' [''2024-06-01''] [''2024-09-01''] ''out''
        (Some [''B2'']) (Some 4326) (1 / 10000) 15 40 (15 / 100) 2 0 tiles_present_world) = Inr ()
   \<and> os_path_join ''out'' ''temp_tiles'' \<in>
        set (dirs (final (get_sentinel2 ''my-project'' ''aoi.shp'' [''2024-06-01'']
          [''2024-09-01''] ''out'' (Some [''B2'']) (Some 4326) (1 / 10000) 15 40 (15 / 100) 2 0
          tiles_present_world)))
   \<and> files (final (get_sentinel2 ''my-project'' ''aoi.shp'' [''2024-06-01''] [''2024-09-01'']
        ''out'' (Some [''B2'']) (Some 4326) (1 / 10000) 15 40 (15 / 100) 2 0 tiles_present_world)) =
       [''out/temp_tiles/sentinel2_B2_1.tif'', ''out/temp_tiles/sentinel2_B2_2.tif'',
        ''out/sentinel2_B2.tif'']"
proof -
  have large: "s2_large_aoi (shp_bounds tiles_present_world ''aoi.shp'')"
    by (simp add: tiles_present_world_def s2_large_aoi_finite)
  have r: "result (get_sentinel2 ''my-project'' ''aoi.shp'' [''2024-06-01''] [''2024-09-01''] ''out''
        (Some [''B2'']) (Some 4326) (1 / 10000) 15 40 (15 / 100) 2 0 tiles_present_world) = Inr ()"
    by code_simp
  have f: "files (final (get_sentinel2 ''my-project'' ''aoi.shp'' [''2024-06-01''] [''2024-09-01'']
        ''out'' (Some [''B2'']) (Some 4326) (1 / 10000) 15 40 (15 / 100) 2 0 tiles_present_world)) =
       [''out/temp_tiles/sentinel2_B2_1.tif'', ''out/temp_tiles/sentinel2_B2_2.tif'',
        ''out/sentinel2_B2.tif'']"
    by code_simp
  note k = sentinel2_keeps_temp_tiles [OF large r]
  from large r k f show ?thesis by (intro conjI)
qed

section \<open>What the sibling paths do\<close>

lemma bind_post:
  assumes "result (io_bind m f w) = Inr r"
    and "\<And>a w'. result (f a w') = Inr r \<Longrightarrow> Q (final (f a w'))"
  shows "Q (final (io_bind m f w))"
proof (cases "result (m w)")
  case (Inl e)
  with assms(1) show ?thesis by (simp add: result_bind)
next
  case (Inr a)
  with assms(1) have "result (f a (final (m w))) = Inr r" by (simp add: result_bind)
  from assms(2)[OF this] Inr show ?thesis by (simp add: final_bind)
qed

lemma dw_landcover_large_cleans:
  assumes "result (dw_landcover_large img shp out c res w) = Inr ()"
  shows "os_path_join out ''temp_tiles'' \<notin>
           set (dirs (final (dw_landcover_large img shp out c res w)))"
  using assms unfolding dw_landcover_large_def Let_def
  apply (erule_tac Q = "\<lambda>w. os_path_join out ''temp_tiles'' \<notin> set (dirs w)" in bind_post)+
  apply (simp add: os_rmdir_run split: if_splits)
  done

lemma dirs_add_files:
  "dirs (foldl (\<lambda>w' n. add_file (f n) w') w ns) = dirs w"
  by (induction ns arbitrary: w) (simp_all add: dirs_add_file)

lemma dw_prob_band_dirs:
  "dirs (final (dw_prob_band_large pm feats od c res band w)) = dirs w"
  "dirs (final (dw_prob_band_small pm od g c res band w)) = dirs w"
  by (simp_all add: dw_prob_band_large_def dw_prob_band_small_def io_run dirs_add_files
      dirs_add_file)

lemma dw_probability_dirs:
  "set (dirs (final (dw_probability pt col bands large shp g out c res w))) \<subseteq>
     insert (os_path_join out ''probability'') (set (dirs w))"
proof -
  have l: "\<And>pm feats od w. dirs (final (io_for bands (dw_prob_band_large pm feats od c res) w)) = dirs w"
    by (rule io_for_dirs) (rule dw_prob_band_dirs)
  have s: "\<And>pm od w. dirs (final (io_for bands (dw_prob_band_small pm od g c res) w)) = dirs w"
    by (rule io_for_dirs) (rule dw_prob_band_dirs)
  show ?thesis
    unfolding dw_probability_def Let_def guarded_makedirs_exist_ok_run
    by (auto simp: final_bind result_bind geemap_fishnet_run l s)
qed

lemma get_dynworld_landcover_final:
  "final (get_dynworld_landcover pid shp sd ed out bands epsg res prob w) =
   (case result (get_dynworld_col (Geometry (Shp_to_ee shp)) sd ed w) of
      Inl e \<Rightarrow> w
    | Inr col \<Rightarrow>
        (let g = Geometry (Shp_to_ee shp);
             bs = (case bands of None \<Rightarrow> dw_default_bands | Some bs \<Rightarrow> bs);
             large = dw_large_aoi (shp_bounds w shp);
             img = Reduce (Select_col col (Band ''label'')) Reducer_mode;
             lc = (if large then dw_landcover_large img g out (EPSG epsg) res
                   else dw_landcover_small img g out (EPSG epsg) res)
         in case result (lc w) of
              Inl e \<Rightarrow> final (lc w)
            | Inr u \<Rightarrow>
                (case prob of
                   None \<Rightarrow> final (lc w)
                 | Some pt \<Rightarrow>
                     final (dw_probability pt col bs large g g out (EPSG epsg) res
                              (final (lc w))))))"
  by (simp add: get_dynworld_landcover_def io_run lib_defs get_aoi_run get_dynworld_col_run(2,3)
      Let_def split: sum.splits option.splits)

text \<open>
  Whenever \<open>get_dynworld_landcover\<close> completes on a large AOI, the directory
  \<^verbatim>\<open>temp_tiles\<close> is gone: lines 141 to 147 remove the tiles and then the directory.
\<close>

theorem dynworld_removes_temp_tiles:
  assumes "dw_large_aoi (shp_bounds w shp)"
    and "result (get_dynworld_landcover pid shp sd ed out bands epsg res prob w) = Inr ()"
  shows "os_path_join out ''temp_tiles'' \<notin>
           set (dirs (final (get_dynworld_landcover pid shp sd ed out bands epsg res prob w)))"
proof -
  let ?td = "os_path_join out ''temp_tiles''"
  let ?g = "Geometry (Shp_to_ee shp)"
  from assms(2) obtain col where
    col: "result (get_dynworld_col ?g sd ed w) = Inr col"
    by (cases "result (get_dynworld_col ?g sd ed w)")
       (simp_all add: get_dynworld_landcover_result)
  let ?lc = "dw_landcover_large (Reduce (Select_col col (Band ''label'')) Reducer_mode) ?g out
               (EPSG epsg) res"
  from assms col have ok: "result (?lc w) = Inr ()"
    by (simp add: get_dynworld_landcover_result Let_def)
  from dw_landcover_large_cleans[OF ok] have clean: "?td \<notin> set (dirs (final (?lc w)))" .
  show ?thesis
  proof (cases prob)
    case None
    with assms(1) col ok clean show ?thesis
      by (simp add: get_dynworld_landcover_final Let_def)
  next
    case (Some pt)
    have "?td \<noteq> os_path_join out ''probability''"
      using join_probability_ne[of out] by simp
    with clean dw_probability_dirs[of pt col _ True ?g ?g out "EPSG epsg" res "final (?lc w)"]
    have "\<And>bs. ?td \<notin> set (dirs (final (dw_probability pt col bs True ?g ?g out (EPSG epsg) res
        (final (?lc w)))))"
      by blast
    with Some assms(1) col ok show ?thesis
      by (simp add: get_dynworld_landcover_final Let_def)
  qed
qed

theorem dynworld_removes_temp_tiles_witness:
  "dw_large_aoi (shp_bounds aoi_large_world ''aoi.shp'')
   \<and> result (get_dynworld_landcover ''my-project'' ''aoi.shp'' [''2024-06-01'']
        [''2024-09-01''] ''out'' (Some [''water'']) (Some 4326) 10 (Some ''mean'') aoi_large_world) =
       Inr ()
   \<and> os_path_join ''out'' ''temp_tiles'' \<notin>
        set (dirs (final (get_dynworld_landcover ''my-project'' ''aoi.shp'' [''2024-06-01'']
          [''2024-09-01''] ''out'' (Some [''water'']) (Some 4326) 10 (Some ''mean'')
          aoi_large_world)))
   \<and> dirs (final (get_dynworld_landcover ''my-project'' ''aoi.shp'' [''2024-06-01'']
        [''2024-09-01''] ''out'' (Some [''water'']) (Some 4326) 10 (Some ''mean'') aoi_large_world)) =
       [''out'', ''out/probability'']"
proof -
  have large: "dw_large_aoi (shp_bounds aoi_large_world ''aoi.shp'')"
    by (simp add: aoi_large_world_def dw_large_aoi_finite)
  have r: "result (get_dynworld_landcover ''my-project'' ''aoi.shp'' [''2024-06-01'']
        [''2024-09-01''] ''out'' (Some [''water'']) (Some 4326) 10 (Some ''mean'') aoi_large_world) =
       Inr ()"
    by code_simp
  have d: "dirs (final (get_dynworld_landcover ''my-project'' ''aoi.shp'' [''2024-06-01'']
        [''2024-09-01''] ''out'' (Some [''water'']) (Some 4326) 10 (Some ''mean'') aoi_large_world)) =
       [''out'', ''out/probability'']"
    by code_simp
  note k = dynworld_removes_temp_tiles [OF large r]
  from large r k d show ?thesis by (intro conjI)
qed

lemma s2_mosaic_band_events:
  "\<exists>l. events (s2_mosaic_band td out band w) =
     [Glob (os_path_join td (''sentinel2_'' @ band @ ''_*.tif'')),
      MosaicRasters l (os_path_join out (''sentinel2_'' @ band @ ''.tif'')) ''trim'',
      Close_raster (os_path_join out (''sentinel2_'' @ band @ ''.tif''))]"
  by (simp add: s2_mosaic_band_def Let_def io_run lib_defs)

lemma s2_mosaic_band_outputs:
  "mosaic_outputs (events (s2_mosaic_band td out band w)) =
     [os_path_join out (''sentinel2_'' @ band @ ''.tif'')]"
proof -
  obtain l where "events (s2_mosaic_band td out band w) =
     [Glob (os_path_join td (''sentinel2_'' @ band @ ''_*.tif'')),
      MosaicRasters l (os_path_join out (''sentinel2_'' @ band @ ''.tif'')) ''trim'',
      Close_raster (os_path_join out (''sentinel2_'' @ band @ ''.tif''))]"
    using s2_mosaic_band_events by blast
  then show ?thesis
    by (simp add: mosaic_outputs_def List.map_filter_simps mosaic_out_of_def)
qed

lemma s2_loop_outputs:
  "mosaic_outputs (events (io_for bands (s2_mosaic_band td out) w)) =
     map (\<lambda>band. os_path_join out (''sentinel2_'' @ band @ ''.tif'')) bands"
proof (induction bands arbitrary: w)
  case Nil
  then show ?case by (simp add: io_run mosaic_outputs_def List.map_filter_simps)
next
  case (Cons b bs)
  have app: "\<And>xs ys. mosaic_outputs (xs @ ys) = mosaic_outputs xs @ mosaic_outputs ys"
    by (simp add: mosaic_outputs_def map_filter_append)
  show ?case
    using Cons.IH
    by (simp add: events_bind app s2_mosaic_band_outputs s2_mosaic_band_run(1))
qed

text \<open>
  Whenever \<open>get_sentinel2\<close> completes on a large AOI, it has written exactly one mosaic
  per requested band, \<^verbatim>\<open>sentinel2_<band>.tif\<close> in the output folder, in the order of the
  bands (lines 389 to 397).
\<close>

theorem sentinel2_one_mosaic_per_band:
  assumes "s2_large_aoi (shp_bounds w shp)"
    and "result (get_sentinel2 pid shp sd ed out bands epsg res cf cpt ndt cpd buf w) = Inr ()"
  shows "mosaic_outputs (events (get_sentinel2 pid shp sd ed out bands epsg res cf cpt ndt cpd buf w)) =
           map (\<lambda>band. os_path_join out (''sentinel2_'' @ band @ ''.tif''))
             (case bands of None \<Rightarrow> s2_default_bands | Some bs \<Rightarrow> bs)"
proof -
  let ?bs = "case bands of None \<Rightarrow> s2_default_bands | Some bs \<Rightarrow> bs"
  let ?td = "os_path_join out ''temp_tiles''"
  from assms have mk: "result (os_makedirs_exist_ok ?td w) = Inr ()"
    by (simp add: get_sentinel2_large s2_large_run)
  have app: "\<And>xs ys. mosaic_outputs (xs @ ys) = mosaic_outputs xs @ mosaic_outputs ys"
    by (simp add: mosaic_outputs_def map_filter_append)
  have mk_ev: "\<And>p xs. mosaic_outputs (Makedirs p # xs) = mosaic_outputs xs"
    and fn_ev: "\<And>s r c xs. mosaic_outputs (Fishnet s r c # xs) = mosaic_outputs xs"
    and pre_ev: "\<And>xs. mosaic_outputs (Authenticate # Initialize pid # Call F_get_aoi #
      Load_shp shp # Read_file shp # xs) = mosaic_outputs xs"
    by (simp_all add: mosaic_outputs_def List.map_filter_simps mosaic_out_of_def)
  have "mosaic_outputs (events (s2_large ?bs (Shp_to_ee shp) out w)) =
          map (\<lambda>band. os_path_join out (''sentinel2_'' @ band @ ''.tif'')) ?bs"
    using mk
    by (simp add: s2_large_def Let_def events_bind result_bind os_makedirs_exist_ok_run(2)
        geemap_fishnet_run app s2_loop_outputs mk_ev fn_ev)
  with assms(1) show ?thesis
    by (simp add: get_sentinel2_events app pre_ev)
qed

theorem sentinel2_one_mosaic_per_band_witness:
  "s2_large_aoi (shp_bounds tiles_present_world ''aoi.shp'')
   \<and> result (get_sentinel2 ''my-project'' ''aoi.shp'' [''2024-06-01''] [''2024-09-01''] ''out''
        (Some [''B2'']) (Some 4326) (1 / 10000) 15 40 (15 / 100) 2 0 tiles_present_world) = Inr ()
   \<and> mosaic_outputs (events (get_sentinel2 ''my-project'' ''aoi.shp'' [''2024-06-01'']
        [''2024-09-01''] ''out'' (Some [''B2'']) (Some 4326) (1 / 10000) 15 40 (15 / 100) 2 0
        tiles_present_world)) = [''out/sentinel2_B2.tif'']"
proof -
  have large: "s2_large_aoi (shp_bounds tiles_present_world ''aoi.shp'')"
    by (simp add: tiles_present_world_def s2_large_aoi_finite)
  have r: "result (get_sentinel2 ''my-project'' ''aoi.shp'' [''2024-06-01''] [''2024-09-01''] ''out''
        (Some [''B2'']) (Some 4326) (1 / 10000) 15 40 (15 / 100) 2 0 tiles_present_world) = Inr ()"
    by code_simp
  from sentinel2_one_mosaic_per_band [OF large r]
  have m: "mosaic_outputs (events (get_sentinel2 ''my-project'' ''aoi.shp'' [''2024-06-01'']
        [''2024-09-01''] ''out'' (Some [''B2'']) (Some 4326) (1 / 10000) 15 40 (15 / 100) 2 0
        tiles_present_world)) = [''out/sentinel2_B2.tif'']"
    by (simp add: os_path_join_def)
  from large r m show ?thesis by (intro conjI)
qed

end
